theory Spec2Isabelle
  imports Complex_Main "HOL-Library.Word"
begin

section \<open>Values: Python scalars, numpy arrays, the store\<close>

text \<open>
  The models of \<^verbatim>\<open>deerlab/bg_models.py\<close> work on Python numbers and one-dimensional
  numpy arrays. A number keeps its type, since numpy's result types depend on it: an
  array built from integers only is an integer array, and an assignment into an integer
  array truncates. A float is a real number, and its arithmetic is exact: rounding and
  float overflow are not part of this development. An integer is a 64-bit machine integer,
  \<^verbatim>\<open>int64\<close>, read as a signed number by \<open>sint\<close>: it is what the entries of an integer
  array and numpy's integer scalars are, and what numpy turns a Python integer into when
  it meets one. Integer arithmetic wraps around, as numpy's does. A Python integer outside
  the range of \<^verbatim>\<open>int64\<close> cannot be written in this model.

  Arrays are objects in a store. An array the caller passes is an address of the store,
  so that a write through an alias would be seen by the caller; a Python scalar or list
  is passed by value (the source never writes into one: it converts it to a new array).
\<close>

datatype num = I "64 word" | F real

datatype ndarray = IntArr "64 word list" | FloatArr "real list"

datatype pyobj = PyNum num | PyList "num list" | NdArray nat

type_synonym heap = "ndarray list"

fun rl :: "num \<Rightarrow> real" where
  "rl (I k) = of_int (sint k)"
| "rl (F x) = x"

fun vals :: "ndarray \<Rightarrow> real list" where
  "vals (IntArr ks) = map (\<lambda>k. of_int (sint k)) ks"
| "vals (FloatArr xs) = xs"

fun alen :: "ndarray \<Rightarrow> nat" where
  "alen (IntArr ks) = length ks"
| "alen (FloatArr xs) = length xs"

text \<open>\<^verbatim>\<open>a[i]\<close> for an index the caller has checked to be in range.\<close>

fun item :: "ndarray \<Rightarrow> nat \<Rightarrow> num" where
  "item (IntArr ks) i = I (ks ! i)"
| "item (FloatArr xs) i = F (xs ! i)"

text \<open>The entries of an array, as numpy scalars.\<close>

fun items :: "ndarray \<Rightarrow> num list" where
  "items (IntArr ks) = map I ks"
| "items (FloatArr xs) = map F xs"

fun ints_of :: "num list \<Rightarrow> 64 word list option" where
  "ints_of [] = Some []"
| "ints_of (I k # ns) = map_option (Cons k) (ints_of ns)"
| "ints_of (F x # ns) = None"

text \<open>
  The array numpy builds from a Python list: an integer array when every entry is an
  integer, a float array otherwise; the empty list gives an empty float array.
\<close>

definition array_of :: "num list \<Rightarrow> ndarray" where
  "array_of ns =
     (if ns = [] then FloatArr []
      else case ints_of ns of Some ks \<Rightarrow> IntArr ks | None \<Rightarrow> FloatArr (map rl ns))"

definition alloc :: "ndarray \<Rightarrow> heap \<Rightarrow> nat \<times> heap" where
  "alloc a h = (length h, h @ [a])"

text \<open>
  \<^verbatim>\<open>np.atleast_1d\<close>: an array of one dimension is returned as it is (the same object,
  no copy); a scalar or a list becomes a new array.
\<close>

fun atleast_1d :: "pyobj \<Rightarrow> heap \<Rightarrow> nat \<times> heap" where
  "atleast_1d (NdArray a) h = (a, h)"
| "atleast_1d (PyNum n) h = alloc (array_of [n]) h"
| "atleast_1d (PyList ns) h = alloc (array_of ns) h"

text \<open>The array a caller's argument denotes, and the arguments that point into the store.\<close>

fun asarray :: "heap \<Rightarrow> pyobj \<Rightarrow> ndarray" where
  "asarray h (NdArray a) = h ! a"
| "asarray h (PyNum n) = array_of [n]"
| "asarray h (PyList ns) = array_of ns"

fun ok :: "heap \<Rightarrow> pyobj \<Rightarrow> bool" where
  "ok h (NdArray a) = (a < length h)"
| "ok h (PyNum n) = True"
| "ok h (PyList ns) = True"

section \<open>Errors and results\<close>

text \<open>
  \<^verbatim>\<open>TypeError\<close> and \<^verbatim>\<open>ValueError\<close> are the exceptions of the source and of numpy, with
  the arguments they are raised with. The other two are not exceptions: \<open>NonFinite\<close>
  stands for a returned array that holds \<^verbatim>\<open>inf\<close> or \<^verbatim>\<open>nan\<close> (a division by zero, zero
  raised to a negative power), which exact reals cannot express, and \<open>Unmodelled\<close> for a
  call whose \<^verbatim>\<open>lam\<close> is not the scalar the docstrings ask for.
\<close>

datatype msgpart = S string | N nat

datatype error = TypeError string | ValueError "msgpart list" | NonFinite | Unmodelled

record info =
  Parameters :: "string list"
  Units :: "string list"
  Start :: ndarray
  Lower :: ndarray
  Upper :: ndarray

datatype retval = Info info | Curve ndarray

type_synonym result = "(error + retval) \<times> heap"

section \<open>Scalar and array arithmetic\<close>

text \<open>
  \<^verbatim>\<open>-lam\<close> for the Python number \<^verbatim>\<open>lam\<close>. Python negates an integer exactly; the negative
  of the smallest \<^verbatim>\<open>int64\<close> is \<^verbatim>\<open>2**63\<close>, which is not an \<^verbatim>\<open>int64\<close>, and numpy computes with
  it as a float.
\<close>

fun nneg :: "num \<Rightarrow> num" where
  "nneg (I k) = (if k = 2 ^ 63 then F (2 ^ 63) else I (- k))"
| "nneg (F x) = F (- x)"

fun nmul :: "num \<Rightarrow> num \<Rightarrow> num" where
  "nmul (I a) (I b) = I (a * b)"
| "nmul a b = F (rl a * rl b)"

text \<open>scalar \<^verbatim>\<open>*\<close> array\<close>

fun smul :: "num \<Rightarrow> ndarray \<Rightarrow> ndarray" where
  "smul (I k) (IntArr ks) = IntArr (map (\<lambda>x. k * x) ks)"
| "smul c a = FloatArr (map (\<lambda>x. rl c * x) (vals a))"

text \<open>\<^verbatim>\<open>abs\<close>; on integers the smallest \<^verbatim>\<open>int64\<close> is its own negative.\<close>

fun np_abs :: "ndarray \<Rightarrow> ndarray" where
  "np_abs (IntArr ks) = IntArr (map (\<lambda>k. if sint k < 0 then - k else k) ks)"
| "np_abs (FloatArr xs) = FloatArr (map abs xs)"

definition np_exp :: "ndarray \<Rightarrow> ndarray" where
  "np_exp a = FloatArr (map exp (vals a))"

text \<open>array \<^verbatim>\<open>*\<close> array of the same length, and array \<^verbatim>\<open>+\<close> scalar\<close>

fun amul :: "ndarray \<Rightarrow> ndarray \<Rightarrow> ndarray" where
  "amul (IntArr xs) (IntArr ys) = IntArr (map2 (*) xs ys)"
| "amul a b = FloatArr (map2 (*) (vals a) (vals b))"

fun sadd :: "ndarray \<Rightarrow> num \<Rightarrow> ndarray" where
  "sadd (IntArr ks) (I c) = IntArr (map (\<lambda>k. k + c) ks)"
| "sadd a c = FloatArr (map (\<lambda>x. x + rl c) (vals a))"

section \<open>The argument resolver\<close>

definition count_msg :: "nat \<Rightarrow> nat \<Rightarrow> msgpart list" where
  "count_msg npar n =
     [S ''This model requires '', N npar, S '' parameters. Only '', N n, S '' where specified.'']"

definition arity_msg :: string where
  "arity_msg = ''Two or three input arguments required: bg_model(t,p) or bg_model(r,p,lam)''"

text \<open>\<^verbatim>\<open>_parsargs(args,npar)\<close>\<close>

definition parsargs :: "pyobj list \<Rightarrow> nat \<Rightarrow> heap \<Rightarrow> (error + nat \<times> nat \<times> pyobj) \<times> heap" where
  "parsargs args npar h =
     (case (case args of
              [t, p] \<Rightarrow> Some (t, p, PyNum (I 1))
            | [t, p, lam] \<Rightarrow> Some (t, p, lam)
            | _ \<Rightarrow> None) of
        None \<Rightarrow> (Inl (TypeError arity_msg), h)
      | Some (t, p, lam) \<Rightarrow>
          (case atleast_1d t h of (tr, h1) \<Rightarrow>
           case atleast_1d p h1 of (pr, h2) \<Rightarrow>
             if alen (h2 ! pr) \<noteq> npar
             then (Inl (ValueError (count_msg npar (alen (h2 ! pr)))), h2)
             else (Inr (tr, pr, lam), h2)))"

section \<open>The models\<close>

text \<open>
  Every model has the same shape: without arguments it returns its descriptor; otherwise
  it resolves the arguments and computes the curve. \<open>compute\<close> is that shape, with
  the descriptor, the parameter count and the numeric body of each model as arguments.
  A body receives the store, the addresses of the time axis and of the parameter array,
  and the scalar \<^verbatim>\<open>lam\<close>.
\<close>

definition compute ::
  "info \<Rightarrow> nat \<Rightarrow> (heap \<Rightarrow> nat \<Rightarrow> nat \<Rightarrow> num \<Rightarrow> result) \<Rightarrow> pyobj list \<Rightarrow> heap \<Rightarrow> result" where
  "compute desc npar body args h =
     (if args = [] then (Inr (Info desc), h)
      else case parsargs args npar h of
             (Inl e, h') \<Rightarrow> (Inl e, h')
           | (Inr (t, p, PyNum lam), h') \<Rightarrow> body h' t p lam
           | (Inr (t, p, _), h') \<Rightarrow> (Inl Unmodelled, h'))"

subsection \<open>Exponential\<close>

definition info_exp :: info where
  "info_exp = \<lparr>Parameters = [''Decay Rate''], Units = [''us-1''],
     Start = FloatArr [0.35], Lower = IntArr [0], Upper = IntArr [200]\<rparr>"

definition body_exp :: "heap \<Rightarrow> nat \<Rightarrow> nat \<Rightarrow> num \<Rightarrow> result" where
  "body_exp h t param lam =
     (let kappa = item (h ! param) 0;
          B = np_exp (smul (nmul (nneg lam) kappa) (np_abs (h ! t)))
      in (Inr (Curve B), h))"

definition bg_exp :: "pyobj list \<Rightarrow> heap \<Rightarrow> result" where
  "bg_exp = compute info_exp 1 body_exp"

subsection \<open>Physical constants\<close>

definition NA :: real where "NA = 6.02214076 * 10 ^ 23"
definition muB :: real where "muB = 9.2740100783 / 10 ^ 24"
definition mu0 :: real where "mu0 = 1.25663706212 / 10 ^ 6"
definition h_planck :: real where "h_planck = 6.62607015 / 10 ^ 34"
definition ge :: real where "ge = 2.00231930436256"
definition hbar :: real where "hbar = h_planck / 2 / pi"

text \<open>\<^verbatim>\<open>(mu0/4/pi)*(muB*ge)**2/hbar\<close>: \<^verbatim>\<open>D\<close> in two models, \<^verbatim>\<open>A\<close> in the third.\<close>

definition dipolar :: real where
  "dipolar = (mu0 / 4 / pi) * (muB * ge) ^ 2 / hbar"

subsection \<open>Powers and broadcasting\<close>

text \<open>
  A float power with a base that is not negative: \<^verbatim>\<open>0**0\<close> is 1 and zero to a positive
  power is 0. Zero to a negative power is \<^verbatim>\<open>inf\<close>: \<open>pow_bad\<close> says when that happens, and
  the models answer \<open>NonFinite\<close> there. The only negative base the models can meet is
  \<^verbatim>\<open>abs\<close> of the smallest \<^verbatim>\<open>int64\<close>; its float power (\<^verbatim>\<open>nan\<close> for most exponents) is the
  value of \<open>powr\<close> there, of which nothing is known.
\<close>

definition pw :: "real \<Rightarrow> real \<Rightarrow> real" where
  "pw x y = (if x = 0 then (if y = 0 then 1 else 0) else x powr y)"

definition pow_bad :: "real list \<Rightarrow> real \<Rightarrow> bool" where
  "pow_bad xs y = (y < 0 \<and> 0 \<in> set xs)"

definition neg_pow_msg :: "msgpart list" where
  "neg_pow_msg = [S ''Integers to negative integer powers are not allowed.'']"

text \<open>
  array \<^verbatim>\<open>**\<close> scalar. Integers to an integer power stay integers in \<^verbatim>\<open>int64\<close>, and numpy
  refuses a negative integer exponent.
\<close>

fun apow :: "ndarray \<Rightarrow> num \<Rightarrow> error + ndarray" where
  "apow (IntArr ks) (I d) =
     (if sint d < 0 then Inl (ValueError neg_pow_msg)
      else Inr (IntArr (map (\<lambda>k. k ^ nat (sint d)) ks)))"
| "apow a d =
     (if pow_bad (vals a) (rl d) then Inl NonFinite
      else Inr (FloatArr (map (\<lambda>x. pw x (rl d)) (vals a))))"

definition broadcast_msg :: "msgpart list" where
  "broadcast_msg = [S ''operands could not be broadcast together'']"

text \<open>array \<^verbatim>\<open>*\<close> array on floats, with numpy's broadcasting of a length-1 operand.\<close>

definition bmul :: "real list \<Rightarrow> real list \<Rightarrow> error + real list" where
  "bmul xs ys =
     (if length xs = length ys then Inr (map2 (*) xs ys)
      else if length xs = 1 then Inr (map (\<lambda>y. hd xs * y) ys)
      else if length ys = 1 then Inr (map (\<lambda>x. x * hd ys) xs)
      else Inl (ValueError broadcast_msg))"

subsection \<open>Homogeneous three-dimensional medium\<close>

definition info_hom3d :: info where
  "info_hom3d = \<lparr>Parameters = [''Concentration of pumped spins''], Units = [''uM''],
     Start = IntArr [50], Lower = FloatArr [0.01], Upper = IntArr [5000]\<rparr>"

definition body_hom3d :: "heap \<Rightarrow> nat \<Rightarrow> nat \<Rightarrow> num \<Rightarrow> result" where
  "body_hom3d h t param lam =
     (let conc = map (\<lambda>c. c * (1 / 10 ^ 6) * 1000 * NA) (vals (h ! param));
          D = dipolar;
          k = - 8 * pi ^ 2 / 9 / sqrt 3 * rl lam
      in case bmul (map (\<lambda>c. k * c * D) conc) (map (\<lambda>x. \<bar>x * (1 / 10 ^ 6)\<bar>) (vals (h ! t))) of
           Inl e \<Rightarrow> (Inl e, h)
         | Inr xs \<Rightarrow> (Inr (Curve (FloatArr (map exp xs))), h))"

definition bg_hom3d :: "pyobj list \<Rightarrow> heap \<Rightarrow> result" where
  "bg_hom3d = compute info_hom3d 1 body_hom3d"

subsection \<open>Stretched exponentials\<close>

definition info_strexp :: info where
  "info_strexp = \<lparr>Parameters = [''Decay Rate'', ''Stretch factor''], Units = [''us-1'', ''''],
     Start = FloatArr [0.25, 1], Lower = IntArr [0, 0], Upper = IntArr [200, 6]\<rparr>"

text \<open>\<^verbatim>\<open>np.exp(-lam*kappa*abs(t)**d)\<close>, the expression the three models share.\<close>

definition strexp :: "num \<Rightarrow> num \<Rightarrow> num \<Rightarrow> ndarray \<Rightarrow> error + ndarray" where
  "strexp lam kappa d t =
     (case apow (np_abs t) d of
        Inl e \<Rightarrow> Inl e
      | Inr a \<Rightarrow> Inr (np_exp (smul (nmul (nneg lam) kappa) a)))"

definition body_strexp :: "heap \<Rightarrow> nat \<Rightarrow> nat \<Rightarrow> num \<Rightarrow> result" where
  "body_strexp h t param lam =
     (let kappa = item (h ! param) 0;
          d = item (h ! param) 1
      in case strexp lam kappa d (h ! t) of
           Inl e \<Rightarrow> (Inl e, h)
         | Inr B \<Rightarrow> (Inr (Curve B), h))"

definition bg_strexp :: "pyobj list \<Rightarrow> heap \<Rightarrow> result" where
  "bg_strexp = compute info_strexp 2 body_strexp"

definition info_prodstrexp :: info where
  "info_prodstrexp = \<lparr>Parameters = [''Decay Rate of 1st component'',
       ''Stretch factor of 1st component'', ''Decay Rate of 2nd component'',
       ''Stretch factor of 2nd component''],
     Units = [''us-1'', '''', ''us-1'', ''''],
     Start = FloatArr [0.25, 1, 0.25, 1], Lower = IntArr [0, 0, 0, 0],
     Upper = IntArr [200, 6, 200, 6]\<rparr>"

definition body_prodstrexp :: "heap \<Rightarrow> nat \<Rightarrow> nat \<Rightarrow> num \<Rightarrow> result" where
  "body_prodstrexp h t param lam =
     (let kappa1 = item (h ! param) 0;
          d1 = item (h ! param) 1;
          kappa2 = item (h ! param) 2;
          d2 = item (h ! param) 3
      in case strexp lam kappa1 d1 (h ! t) of
           Inl e \<Rightarrow> (Inl e, h)
         | Inr strexp1 \<Rightarrow>
             (case strexp lam kappa2 d2 (h ! t) of
                Inl e \<Rightarrow> (Inl e, h)
              | Inr strexp2 \<Rightarrow>
                  (Inr (Curve (amul strexp1 strexp2)), h)))"

definition bg_prodstrexp :: "pyobj list \<Rightarrow> heap \<Rightarrow> result" where
  "bg_prodstrexp = compute info_prodstrexp 4 body_prodstrexp"

definition info_sumstrexp :: info where
  "info_sumstrexp = \<lparr>Parameters = [''Decay Rate of 1st component'',
       ''Stretch factor of 1st component'', ''Amplitude of 1st component'',
       ''Decay Rate of 2nd component'', ''Stretch factor of 2nd component''],
     Units = [''us-1'', '''', '''', ''us-1'', ''''],
     Start = FloatArr [0.25, 1, 0.5, 0.25, 1], Lower = IntArr [0, 0, 0, 0, 0],
     Upper = IntArr [200, 6, 1, 200, 6]\<rparr>"

text \<open>\<^verbatim>\<open>1-w1\<close> for an entry \<^verbatim>\<open>w1\<close> of the parameter array: in \<^verbatim>\<open>int64\<close> when \<^verbatim>\<open>w1\<close> is an integer.\<close>

fun one_minus :: "num \<Rightarrow> num" where
  "one_minus (I k) = I (1 - k)"
| "one_minus (F x) = F (1 - x)"

definition body_sumstrexp :: "heap \<Rightarrow> nat \<Rightarrow> nat \<Rightarrow> num \<Rightarrow> result" where
  "body_sumstrexp h t param lam =
     (let kappa1 = item (h ! param) 0;
          d1 = item (h ! param) 1;
          w1 = item (h ! param) 2;
          kappa2 = item (h ! param) 3;
          d2 = item (h ! param) 4
      in case strexp lam kappa1 d1 (h ! t) of
           Inl e \<Rightarrow> (Inl e, h)
         | Inr strexp1 \<Rightarrow>
             (case strexp lam kappa2 d2 (h ! t) of
                Inl e \<Rightarrow> (Inl e, h)
              | Inr strexp2 \<Rightarrow>
                  (Inr (Curve (FloatArr (map2 (\<lambda>x y. rl w1 * x + rl (one_minus w1) * y)
                                           (vals strexp1) (vals strexp2)))), h)))"

definition bg_sumstrexp :: "pyobj list \<Rightarrow> heap \<Rightarrow> result" where
  "bg_sumstrexp = compute info_sumstrexp 5 body_sumstrexp"

subsection \<open>Homogeneous three-dimensional medium with excluded volume\<close>

text \<open>
  \<^verbatim>\<open>load_exvolume_redfactor\<close> is not part of the file: the table it returns, the sample
  points \<^verbatim>\<open>dR_tab\<close> and the values \<^verbatim>\<open>alphas_tab\<close>, is an argument of the model.

  \<open>interp1\<close> is \<^verbatim>\<open>np.interp\<close> at one point, for increasing sample points: the first
  value left of the table, the last value right of it, the chord in between.
\<close>

fun interp1 :: "real \<Rightarrow> (real \<times> real) list \<Rightarrow> real" where
  "interp1 x [] = 0"
| "interp1 x [(x0, y0)] = y0"
| "interp1 x ((x0, y0) # (x1, y1) # tab) =
     (if x \<le> x0 then y0
      else if x < x1 then (y1 - y0) / (x1 - x0) * (x - x0) + y0
      else interp1 x ((x1, y1) # tab))"

text \<open>\<^verbatim>\<open>a[mask]\<close> and \<^verbatim>\<open>a[mask] = values\<close> for a boolean mask as long as the array.\<close>

definition select :: "bool list \<Rightarrow> 'a list \<Rightarrow> 'a list" where
  "select msk xs = map snd (filter fst (zip msk xs))"

fun put_mask :: "bool list \<Rightarrow> 'a list \<Rightarrow> 'a list \<Rightarrow> 'a list" where
  "put_mask (True # ms) (a # as) (v # vs) = v # put_mask ms as vs"
| "put_mask (False # ms) (a # as) vs = a # put_mask ms as vs"
| "put_mask ms as vs = as"

definition max_msg :: "msgpart list" where
  "max_msg = [S ''max() arg is an empty sequence'']"

definition interp_msg :: "msgpart list" where
  "interp_msg = [S ''fp and xp are not of the same length.'']"

definition info_hom3dex :: info where
  "info_hom3dex = \<lparr>Parameters = [''Fractal Concentration of pumped spins'',
       ''Fractal dimensionality''],
     Units = [''umol/dm^d'', ''''],
     Start = IntArr [50, 1], Lower = FloatArr [0.01, 0.01], Upper = IntArr [5000, 20]\<rparr>"

definition body_hom3dex ::
  "real list \<times> real list \<Rightarrow> heap \<Rightarrow> nat \<Rightarrow> nat \<Rightarrow> num \<Rightarrow> result" where
  "body_hom3dex tab h t param lam =
     (let dR_tab = fst tab; alphas_tab = snd tab;
          R = rl (item (h ! param) 1);
          conc = rl (item (h ! param) 0) * (1 / 10 ^ 6) * 1000 * NA;
          A = dipolar;
          tabs = map (\<lambda>x. \<bar>x * (1 / 10 ^ 6)\<bar>) (vals (h ! t))
      in if R = 0 then
           (let K = map (\<lambda>x. 8 * pi ^ 2 / 9 / sqrt 3 * A * x * 1) tabs
            in (Inr (Curve (FloatArr (map (\<lambda>k. exp (- rl lam * conc * k)) K))), h))
         else
           (let dR = map (\<lambda>x. A * x / (R * (1 / 10 ^ 9)) ^ 3) tabs
            in if dR_tab = [] then (Inl (ValueError max_msg), h)
               else
                 (let small = map (\<lambda>x. x < Max (set dR_tab)) dR
                  in case alloc (FloatArr (replicate (length dR) 0)) h of (alpha, h1) \<Rightarrow>
                     if length alphas_tab \<noteq> length dR_tab then (Inl (ValueError interp_msg), h1)
                     else
                       (let h2 = h1[alpha := FloatArr (put_mask small (vals (h1 ! alpha))
                                     (map (\<lambda>x. interp1 x (zip dR_tab alphas_tab)) (select small dR)))];
                            large = select (map Not small) dR
                        in if 0 \<in> set large then (Inl NonFinite, h2)
                           else
                             (let h3 = h2[alpha := FloatArr (put_mask (map Not small) (vals (h2 ! alpha))
                                           (map (\<lambda>x. 1 - (3 / 2 / pi) * sqrt 3 / x) large))];
                                  K = map2 (\<lambda>x a. 8 * pi ^ 2 / 9 / sqrt 3 * A * x * a) tabs (vals (h3 ! alpha))
                              in (Inr (Curve (FloatArr (map (\<lambda>k. exp (- rl lam * conc * k)) K))), h3))))))"

definition bg_hom3dex :: "real list \<times> real list \<Rightarrow> pyobj list \<Rightarrow> heap \<Rightarrow> result" where
  "bg_hom3dex tab = compute info_hom3dex 2 (body_hom3dex tab)"

subsection \<open>Homogeneous fractal medium\<close>

text \<open>
  \<^verbatim>\<open>scp.special.gamma\<close> and \<^verbatim>\<open>scp.integrate.quad\<close> are library functions, taken as
  arguments \<open>gamma\<close> and \<open>quad\<close>. As in scipy, \<open>quad f a b limit\<close> returns a pair: the
  value of the integral and an estimate of its error.

  The product of a numpy \<^verbatim>\<open>float64\<close> and a tuple: numpy leaves it to the tuple, and a tuple
  can only be repeated a whole number of times, so Python raises a \<^verbatim>\<open>TypeError\<close>.
\<close>

definition seq_repeat_msg :: string where
  "seq_repeat_msg = ''can'' @ [CHR 0x27] @ ''t multiply sequence by non-int of type ''
     @ [CHR 0x27] @ ''numpy.float64'' @ [CHR 0x27]"

definition float64_times_tuple :: "real \<Rightarrow> real \<times> real \<Rightarrow> error + real" where
  "float64_times_tuple x pr = Inl (TypeError seq_repeat_msg)"

text \<open>\<^verbatim>\<open>10**-d\<close>: an integer power for an integer \<^verbatim>\<open>d\<close>, which numpy refuses when \<^verbatim>\<open>-d\<close> is negative.\<close>

fun ten_pow_neg :: "num \<Rightarrow> error + real" where
  "ten_pow_neg (I d) =
     (if sint (- d) < 0 then Inl (ValueError neg_pow_msg)
      else Inr (of_int (sint ((10 :: 64 word) ^ nat (sint (- d))))))"
| "ten_pow_neg (F d) = Inr (10 powr (- d))"

definition eps :: real where
  "eps = 1 / 2 ^ 52"

definition info_homfractal :: info where
  "info_homfractal = \<lparr>Parameters = [''Fractal Concentration of pumped spins'',
       ''Fractal dimensionality''],
     Units = [''umol/dm^d'', ''''],
     Start = IntArr [50, 3], Lower = FloatArr [0.01, 0 + eps], Upper = FloatArr [5000, 6 - eps]\<rparr>"

definition body_homfractal ::
  "(real \<Rightarrow> real) \<Rightarrow> ((real \<Rightarrow> real) \<Rightarrow> real \<Rightarrow> real \<Rightarrow> nat \<Rightarrow> real \<times> real) \<Rightarrow>
   heap \<Rightarrow> nat \<Rightarrow> nat \<Rightarrow> num \<Rightarrow> result" where
  "body_homfractal gamma quad h t param lam =
     (let d = item (h ! param) 1;
          D = dipolar
      in case ten_pow_neg d of
           Inl e \<Rightarrow> (Inl e, h)
         | Inr tp \<Rightarrow>
            (let conc = rl (item (h ! param) 0) * (1 / 10 ^ 6) * tp * NA;
                 tabs = map (\<lambda>x. \<bar>x * (1 / 10 ^ 6)\<bar>) (vals (h ! t))
             in if rl d = 3 then
                  (let c = - pi / 2;
                       Lam = 4 / 3 / sqrt 3
                   in if pow_bad tabs (rl d / 3) then (Inl NonFinite, h)
                      else (Inr (Curve (FloatArr (map (\<lambda>x. exp (4 * pi / 3 * c * Lam * rl lam * conc
                                    * D powr (rl d / 3) * pw x (rl d / 3))) tabs))), h))
                else
                  (let c = cos (rl d * pi / 6) * gamma (- rl d / 3);
                       integrand = (\<lambda>z. pw \<bar>1 - 3 * z ^ 2\<bar> (rl d / 3));
                       Lam = quad integrand 0 1 1000
                   in case float64_times_tuple (4 * pi / 3 * c) Lam of
                        Inl e \<Rightarrow> (Inl e, h)
                      | Inr y \<Rightarrow>
                          if pow_bad tabs (rl d / 3) then (Inl NonFinite, h)
                          else (Inr (Curve (FloatArr (map (\<lambda>x. exp (y * rl lam * conc
                                    * D powr (rl d / 3) * pw x (rl d / 3))) tabs))), h))))"

definition bg_homfractal ::
  "(real \<Rightarrow> real) \<Rightarrow> ((real \<Rightarrow> real) \<Rightarrow> real \<Rightarrow> real \<Rightarrow> nat \<Rightarrow> real \<times> real) \<Rightarrow>
   pyobj list \<Rightarrow> heap \<Rightarrow> result" where
  "bg_homfractal gamma quad = compute info_homfractal 2 (body_homfractal gamma quad)"

subsection \<open>Polynomials\<close>

text \<open>
  The cast of a float stored into an integer array: towards zero. (A float outside the
  range of \<^verbatim>\<open>int64\<close> has no defined cast; the model reduces it modulo \<^verbatim>\<open>2**64\<close>.)
\<close>

definition trunc :: "real \<Rightarrow> int" where
  "trunc x = (if 0 \<le> x then \<lfloor>x\<rfloor> else \<lceil>x\<rceil>)"

fun flip :: "ndarray \<Rightarrow> ndarray" where
  "flip (IntArr ks) = IntArr (rev ks)"
| "flip (FloatArr xs) = FloatArr (rev xs)"

text \<open>
  The array after \<^verbatim>\<open>p[:-1] = lam*p[:-1]\<close>. The product is a float array unless both
  \<^verbatim>\<open>lam\<close> and \<^verbatim>\<open>p\<close> are integers, and the assignment casts it to the type of \<^verbatim>\<open>p\<close>.
\<close>

fun scale_head :: "num \<Rightarrow> ndarray \<Rightarrow> ndarray" where
  "scale_head (I l) (IntArr ks) =
     IntArr (map (\<lambda>k. l * k) (take (length ks - 1) ks) @ drop (length ks - 1) ks)"
| "scale_head (F l) (IntArr ks) =
     IntArr (map (\<lambda>k. word_of_int (trunc (l * of_int (sint k)))) (take (length ks - 1) ks)
             @ drop (length ks - 1) ks)"
| "scale_head l (FloatArr xs) =
     FloatArr (map (\<lambda>x. rl l * x) (take (length xs - 1) xs) @ drop (length xs - 1) xs)"

fun zeros_like :: "ndarray \<Rightarrow> ndarray" where
  "zeros_like (IntArr ks) = IntArr (replicate (length ks) 0)"
| "zeros_like (FloatArr xs) = FloatArr (replicate (length xs) 0)"

text \<open>
  \<^verbatim>\<open>np.polyval(p, x)\<close>, Horner's scheme as numpy runs it:
  \<^verbatim>\<open>y = zeros_like(x); for pv in p: y = y * x + pv\<close>.
\<close>

definition polyval :: "ndarray \<Rightarrow> ndarray \<Rightarrow> ndarray" where
  "polyval p x = foldl (\<lambda>y pv. sadd (amul y x) pv) (zeros_like x) (items p)"

text \<open>
  The body of the three polynomial models. \<^verbatim>\<open>np.flip\<close> is a view of the caller's array
  and \<^verbatim>\<open>np.copy\<close> a new array with its values; the assignment writes into that copy.
  \<^verbatim>\<open>bg_poly1\<close> also prints \<^verbatim>\<open>param\<close> twice, which leaves the store as it is.
\<close>

definition body_poly :: "heap \<Rightarrow> nat \<Rightarrow> nat \<Rightarrow> num \<Rightarrow> result" where
  "body_poly h t param lam =
     (case alloc (flip (h ! param)) h of (p, h1) \<Rightarrow>
        (let h2 = h1[p := scale_head lam (h1 ! p)];
             B = polyval (h2 ! p) (np_abs (h2 ! t))
         in (Inr (Curve B), h2)))"

definition info_poly1 :: info where
  "info_poly1 = \<lparr>Parameters = [''Intercept'', ''1st-order coefficient''],
     Units = ['''', ''us-1''],
     Start = IntArr [1, - 1], Lower = IntArr [0, - 200], Upper = IntArr [200, 200]\<rparr>"

definition bg_poly1 :: "pyobj list \<Rightarrow> heap \<Rightarrow> result" where
  "bg_poly1 = compute info_poly1 2 body_poly"

definition info_poly2 :: info where
  "info_poly2 = \<lparr>Parameters = [''Intercept'', ''1st-order coefficient'',
       ''2nd-order coefficient''],
     Units = ['''', ''us-1'', ''us-2''],
     Start = IntArr [1, - 1, - 1], Lower = IntArr [0, - 200, - 200],
     Upper = IntArr [200, 200, 200]\<rparr>"

definition bg_poly2 :: "pyobj list \<Rightarrow> heap \<Rightarrow> result" where
  "bg_poly2 = compute info_poly2 3 body_poly"

definition info_poly3 :: info where
  "info_poly3 = \<lparr>Parameters = [''Intercept'', ''1st-order coefficient'',
       ''2nd-order coefficient'', ''3rd-order coefficient''],
     Units = ['''', ''us-1'', ''us-2'', ''us-3''],
     Start = IntArr [1, - 1, - 1, - 1], Lower = IntArr [0, - 200, - 200, - 200],
     Upper = IntArr [200, 200, 200, 200]\<rparr>"

definition bg_poly3 :: "pyobj list \<Rightarrow> heap \<Rightarrow> result" where
  "bg_poly3 = compute info_poly3 4 body_poly"

subsection \<open>All models\<close>

text \<open>
  The ten models, each with the parameter count it passes to \<^verbatim>\<open>_parsargs\<close>. The table
  of the excluded-volume model and the two library functions of the fractal model are
  arguments.
\<close>

definition models ::
  "real list \<times> real list \<Rightarrow> (real \<Rightarrow> real) \<Rightarrow> ((real \<Rightarrow> real) \<Rightarrow> real \<Rightarrow> real \<Rightarrow> nat \<Rightarrow> real \<times> real) \<Rightarrow>
   (nat \<times> (pyobj list \<Rightarrow> heap \<Rightarrow> result)) list" where
  "models tab gamma quad =
     [(1, bg_exp), (1, bg_hom3d), (2, bg_hom3dex tab), (2, bg_homfractal gamma quad),
      (2, bg_strexp), (4, bg_prodstrexp), (5, bg_sumstrexp),
      (2, bg_poly1), (3, bg_poly2), (4, bg_poly3)]"

definition descriptors :: "info list" where
  "descriptors = [info_exp, info_hom3d, info_hom3dex, info_homfractal, info_strexp,
     info_prodstrexp, info_sumstrexp, info_poly1, info_poly2, info_poly3]"

text \<open>The store after \<^verbatim>\<open>_parsargs\<close> has coerced the time axis and the parameters.\<close>

definition coerced :: "pyobj \<Rightarrow> pyobj \<Rightarrow> heap \<Rightarrow> heap" where
  "coerced t p h = snd (atleast_1d p (snd (atleast_1d t h)))"

subsection \<open>The product of two returned curves\<close>

text \<open>
  What \<^verbatim>\<open>f(...) * g(...)\<close> is for two calls that return curves of one length: their
  product entry by entry; an exception of the first call, or else of the second, when one
  is raised. Descriptors are not multiplied.
\<close>

fun curve_product :: "error + retval \<Rightarrow> error + retval \<Rightarrow> error + retval" where
  "curve_product (Inr (Curve a)) (Inr (Curve b)) = Inr (Curve (amul a b))"
| "curve_product (Inl e) r = Inl e"
| "curve_product r (Inl e) = Inl e"
| "curve_product r s = Inl Unmodelled"

subsection \<open>Integer arithmetic that does not wrap\<close>

text \<open>
  \<open>no_wrap p t\<close> for the parameter array \<open>p\<close> and the time axis \<open>t\<close>: numpy computes
  \<^verbatim>\<open>abs(t)\<close> and the products of the parameters with \<^verbatim>\<open>abs(t)\<close> without leaving \<^verbatim>\<open>int64\<close>.
  A float time axis has no such limit. An integer time axis must not hold the smallest
  \<^verbatim>\<open>int64\<close>, and with integer parameters the products must stay below \<^verbatim>\<open>2**63\<close>.
\<close>

fun no_wrap :: "ndarray \<Rightarrow> ndarray \<Rightarrow> bool" where
  "no_wrap (IntArr ks) (IntArr ts) =
     (\<forall>k \<in> set ks. \<forall>w \<in> set ts. - (2 ^ 63) < sint w \<and> \<bar>sint k\<bar> * \<bar>sint w\<bar> < 2 ^ 63)"
| "no_wrap (FloatArr xs) (IntArr ts) = (\<forall>w \<in> set ts. - (2 ^ 63) < sint w)"
| "no_wrap p (FloatArr ts) = True"

subsection \<open>What a call leaves of the store\<close>

text \<open>
  \<open>frame h h'\<close>: every array of the store \<open>h\<close> is in \<open>h'\<close>, at its address and with the
  values it had; \<open>h'\<close> may hold new arrays.
\<close>

definition frame :: "heap \<Rightarrow> heap \<Rightarrow> bool" where
  "frame h h' = (length h \<le> length h' \<and> (\<forall>a < length h. h' ! a = h ! a))"

subsection \<open>Entries of a returned curve, bounds, tables\<close>

text \<open>The entry \<open>i\<close> of the curve a call returned, if it returned a curve that long.\<close>

definition value_at :: "result \<Rightarrow> nat \<Rightarrow> real option" where
  "value_at r i =
     (case fst r of
        Inr (Curve a) \<Rightarrow> if i < alen a then Some (vals a ! i) else None
      | _ \<Rightarrow> None)"

text \<open>A parameter array within the bounds \<^verbatim>\<open>Lower\<close> and \<^verbatim>\<open>Upper\<close> of a descriptor.\<close>

definition in_bounds :: "info \<Rightarrow> ndarray \<Rightarrow> bool" where
  "in_bounds desc p =
     (list_all2 (\<le>) (vals (Lower desc)) (vals p) \<and> list_all2 (\<le>) (vals p) (vals (Upper desc)))"

text \<open>
  A lookup table as the specification describes it, as far as the model needs it at time
  zero: as many values as sample points, and a largest sample point above zero.
\<close>

definition table_ok :: "real list \<times> real list \<Rightarrow> bool" where
  "table_ok tab = (fst tab \<noteq> [] \<and> length (snd tab) = length (fst tab) \<and> 0 < Max (set (fst tab)))"

section \<open>The argument resolver, proved\<close>

lemma compute_arity:
  "args \<noteq> [] \<Longrightarrow> length args \<noteq> 2 \<Longrightarrow> length args \<noteq> 3 \<Longrightarrow>
   compute desc npar body args h = (Inl (TypeError arity_msg), h)"
  by (auto simp: compute_def parsargs_def split: list.splits)

lemma atleast_1d_ok:
  "ok h x \<Longrightarrow> atleast_1d x h = (r, h') \<Longrightarrow>
   r < length h' \<and> h' ! r = asarray h x \<and> length h \<le> length h' \<and> (\<forall>a < length h. h' ! a = h ! a)"
  by (cases x) (auto simp: alloc_def nth_append)

lemma parsargs_default: "parsargs [t, p] npar h = parsargs [t, p, PyNum (I 1)] npar h"
  by (simp add: parsargs_def)

lemma parsargs3:
  assumes "ok h t" "ok h p"
  shows "\<exists>tr pr. parsargs [t, p, lam] npar h =
           ((if alen (asarray h p) \<noteq> npar
             then Inl (ValueError (count_msg npar (alen (asarray h p))))
             else Inr (tr, pr, lam)), coerced t p h)
         \<and> tr < length (coerced t p h) \<and> pr < length (coerced t p h)
         \<and> coerced t p h ! tr = asarray h t \<and> coerced t p h ! pr = asarray h p"
proof -
  obtain tr h1 where 1: "atleast_1d t h = (tr, h1)" by (cases "atleast_1d t h")
  obtain pr h2 where 2: "atleast_1d p h1 = (pr, h2)" by (cases "atleast_1d p h1")
  from atleast_1d_ok[OF assms(1) 1]
  have a: "tr < length h1" "h1 ! tr = asarray h t" "length h \<le> length h1" "\<forall>a<length h. h1 ! a = h ! a"
    by auto
  have okp: "ok h1 p" using assms(2) a(3) by (cases p) auto
  from atleast_1d_ok[OF okp 2]
  have b: "pr < length h2" "h2 ! pr = asarray h1 p" "length h1 \<le> length h2" "\<forall>a<length h1. h2 ! a = h1 ! a"
    by auto
  have c: "asarray h1 p = asarray h p" using assms(2) a(4) by (cases p) auto
  have h2: "coerced t p h = h2" by (simp add: coerced_def 1 2)
  show ?thesis
    apply (rule exI[of _ tr], rule exI[of _ pr])
    using a b c by (auto simp: h2 parsargs_def 1 2)
qed

lemma coerced_frame:
  "ok h t \<Longrightarrow> ok h p \<Longrightarrow> length h \<le> length (coerced t p h) \<and> (\<forall>a<length h. coerced t p h ! a = h ! a)"
proof -
  assume t: "ok h t" and p: "ok h p"
  obtain tr h1 where 1: "atleast_1d t h = (tr, h1)" by (cases "atleast_1d t h")
  obtain pr h2 where 2: "atleast_1d p h1 = (pr, h2)" by (cases "atleast_1d p h1")
  have a: "length h \<le> length h1" "\<forall>a<length h. h1 ! a = h ! a"
    using atleast_1d_ok[OF t 1] by auto
  have okp: "ok h1 p" using p a(1) by (cases p) auto
  have b: "length h1 \<le> length h2" "\<forall>a<length h1. h2 ! a = h1 ! a"
    using atleast_1d_ok[OF okp 2] by auto
  show ?thesis using a b by (auto simp: coerced_def 1 2)
qed

lemma compute_count:
  assumes "ok h t" "ok h p" "alen (asarray h p) \<noteq> npar"
  shows "compute desc npar body [t, p, lam] h =
           (Inl (ValueError (count_msg npar (alen (asarray h p)))), coerced t p h)"
    and "compute desc npar body [t, p] h =
           (Inl (ValueError (count_msg npar (alen (asarray h p)))), coerced t p h)"
  using parsargs3[OF assms(1,2), of lam npar] parsargs3[OF assms(1,2), of "PyNum (I 1)" npar] assms(3)
  by (auto simp: compute_def parsargs_default)

lemma compute_body:
  assumes "ok h t" "ok h p" "alen (asarray h p) = npar"
  shows "\<exists>tr pr. compute desc npar body [t, p, PyNum lam] h = body (coerced t p h) tr pr lam
           \<and> tr < length (coerced t p h) \<and> pr < length (coerced t p h)
           \<and> coerced t p h ! tr = asarray h t \<and> coerced t p h ! pr = asarray h p"
  using parsargs3[OF assms(1,2), of "PyNum lam" npar] assms(3)
  by (fastforce simp: compute_def)

lemma compute_default:
  "compute desc npar body [t, p] h = compute desc npar body [t, p, PyNum (I 1)] h"
  by (simp add: compute_def parsargs_default)

lemma model_cases:
  assumes "(n, f) \<in> set (models tab gamma quad)"
  shows "\<exists>desc body. f = compute desc n body \<and> desc \<in> set descriptors"
  using assms
  by (auto simp: models_def descriptors_def bg_exp_def bg_hom3d_def bg_hom3dex_def bg_homfractal_def
      bg_strexp_def bg_prodstrexp_def bg_sumstrexp_def bg_poly1_def bg_poly2_def bg_poly3_def)

section \<open>Arity, parameter count and descriptors\<close>

text \<open>
  Claim C6. A call of any model with one argument, or with four or more, fails with the
  \<^verbatim>\<open>TypeError\<close> of \<^verbatim>\<open>_parsargs\<close> (the spec's \<^verbatim>\<open>InvalidArgumentCount\<close>), and the store is
  as it was. A call without arguments is the descriptor mode, not a computation.
\<close>

theorem arity_error:
  assumes "(n, f) \<in> set (models tab gamma quad)"
    and "args \<noteq> []" and "length args \<noteq> 2" and "length args \<noteq> 3"
  shows "f args h = (Inl (TypeError arity_msg), h)"
  using model_cases[OF assms(1)] compute_arity[OF assms(2,3,4)] by auto

theorem arity_error_witness:
  "(4, bg_poly3) \<in> set (models ([], []) (\<lambda>x. x) (\<lambda>f a b n. (0, 0)))
   \<and> [PyNum (F 1)] \<noteq> [] \<and> length [PyNum (F 1)] \<noteq> 2 \<and> length [PyNum (F 1)] \<noteq> 3
   \<and> bg_poly3 [PyNum (F 1)] [] = (Inl (TypeError arity_msg), [])"
  using arity_error[where n = 4 and f = bg_poly3 and tab = "([], [])" and gamma = "\<lambda>x. x"
      and quad = "\<lambda>f a b n. (0, 0)" and args = "[PyNum (F 1)]" and h = "[]"]
  by (simp add: models_def)

text \<open>
  Claim C3. A call of any model with two or three arguments whose parameter vector does not
  have the model's count of entries fails with the \<^verbatim>\<open>ValueError\<close> of \<^verbatim>\<open>_parsargs\<close> (the
  spec's \<^verbatim>\<open>ParameterCountMismatch\<close>); its arguments hold the expected and the received
  count; and nothing was computed before: the store is the one the two coercions of
  \<^verbatim>\<open>_parsargs\<close> leave, whatever the body of the model and whatever \<^verbatim>\<open>lam\<close>.
\<close>

theorem count_mismatch:
  assumes "(n, f) \<in> set (models tab gamma quad)"
    and "args = [t, p] \<or> args = [t, p, lam]"
    and "ok h t" and "ok h p"
    and "alen (asarray h p) \<noteq> n"
  shows "f args h = (Inl (ValueError (count_msg n (alen (asarray h p)))), coerced t p h)
         \<and> N n \<in> set (count_msg n (alen (asarray h p)))
         \<and> N (alen (asarray h p)) \<in> set (count_msg n (alen (asarray h p)))"
proof -
  obtain desc body where f: "f = compute desc n body"
    using model_cases[OF assms(1)] by auto
  show ?thesis
    using assms(2) compute_count(1)[OF assms(3,4,5), of desc body lam]
      compute_count(2)[OF assms(3,4,5), of desc body]
    by (auto simp: f count_msg_def)
qed

theorem count_mismatch_witness:
  "(2, bg_strexp) \<in> set (models ([], []) (\<lambda>x. x) (\<lambda>f a b n. (0, 0)))
   \<and> ok [] (PyList [I 0, I 1]) \<and> ok [] (PyList [F 0.25])
   \<and> alen (asarray [] (PyList [F 0.25])) \<noteq> 2
   \<and> bg_strexp [PyList [I 0, I 1], PyList [F 0.25]] [] =
       (Inl (ValueError [S ''This model requires '', N 2, S '' parameters. Only '', N 1,
                         S '' where specified.'']), [IntArr [0, 1], FloatArr [0.25]])"
  using count_mismatch[where n = 2 and f = bg_strexp and tab = "([], [])" and gamma = "\<lambda>x. x"
      and quad = "\<lambda>f a b n. (0, 0)" and args = "[PyList [I 0, I 1], PyList [F 0.25]]"
      and t = "PyList [I 0, I 1]" and p = "PyList [F 0.25]" and h = "[]"]
  by (simp add: models_def array_of_def count_msg_def coerced_def alloc_def)

text \<open>
  Claim C7. Called without arguments, every model returns its descriptor, whose five fields
  all have as many entries as the model has parameters, and leaves the store as it was.
\<close>

theorem descriptor_lengths:
  assumes "(n, f) \<in> set (models tab gamma quad)"
  shows "\<exists>d. f [] h = (Inr (Info d), h) \<and> length (Parameters d) = n \<and> length (Units d) = n
           \<and> alen (Start d) = n \<and> alen (Lower d) = n \<and> alen (Upper d) = n"
  using assms
  by (auto simp: models_def compute_def bg_exp_def bg_hom3d_def bg_hom3dex_def bg_homfractal_def
      bg_strexp_def bg_prodstrexp_def bg_sumstrexp_def bg_poly1_def bg_poly2_def bg_poly3_def
      info_exp_def info_hom3d_def info_hom3dex_def info_homfractal_def info_strexp_def
      info_prodstrexp_def info_sumstrexp_def info_poly1_def info_poly2_def info_poly3_def)

theorem descriptor_lengths_witness:
  "(5, bg_sumstrexp) \<in> set (models ([], []) (\<lambda>x. x) (\<lambda>f a b n. (0, 0)))
   \<and> (\<exists>d. bg_sumstrexp [] [] = (Inr (Info d), []) \<and> length (Parameters d) = 5
          \<and> length (Units d) = 5 \<and> alen (Start d) = 5 \<and> alen (Lower d) = 5 \<and> alen (Upper d) = 5)"
  using descriptor_lengths[where n = 5 and f = bg_sumstrexp and tab = "([], [])" and gamma = "\<lambda>x. x"
      and quad = "\<lambda>f a b n. (0, 0)" and h = "[]"]
  by (simp add: models_def)

section \<open>Signed 64-bit integers\<close>

lemma sint_min: "sint (w :: 64 word) = - (2 ^ 63) \<Longrightarrow> w = 2 ^ 63"
proof -
  assume "sint w = - (2 ^ 63)"
  then have "sint w = sint (2 ^ 63 :: 64 word)" by simp
  then show ?thesis by (rule signed_word_eqI)
qed

lemma sint_zero: "sint (w :: 64 word) = 0 \<Longrightarrow> w = 0"
proof -
  assume "sint w = 0"
  then have "sint w = sint (0 :: 64 word)" by simp
  then show ?thesis by (rule signed_word_eqI)
qed

lemma sint_one: "sint (w :: 64 word) = 1 \<Longrightarrow> w = 1"
proof -
  assume "sint w = 1"
  then have "sint w = sint (1 :: 64 word)" by simp
  then show ?thesis by (rule signed_word_eqI)
qed

lemma sint_range: "- (2 ^ 63) \<le> sint (w :: 64 word)" "sint (w :: 64 word) < 2 ^ 63"
  using sint_ge[of w] sint_lt[of w] by simp_all

lemma sint_exact: "- (2 ^ 63) \<le> k \<Longrightarrow> k < 2 ^ 63 \<Longrightarrow> signed_take_bit 63 (k :: int) = k"
  by (rule signed_take_bit_int_eq_self) simp_all

lemma sint_neg: "- (2 ^ 63) < sint (w :: 64 word) \<Longrightarrow> sint (- w) = - sint w"
  using sint_range(2)[of w] by (simp add: sint_word_minus sint_exact)

lemma sint_mult: "- (2 ^ 63) \<le> sint a * sint b \<Longrightarrow> sint a * sint b < 2 ^ 63 \<Longrightarrow>
  sint (a * b :: 64 word) = sint a * sint b"
  by (simp add: sint_word_mult sint_exact)

lemma sint_absw:
  "- (2 ^ 63) < sint (w :: 64 word) \<Longrightarrow> sint (if sint w < 0 then - w else w) = \<bar>sint w\<bar>"
  by (simp add: sint_neg)

section \<open>Values of the closed-form models\<close>

lemma rl_nneg: "rl (nneg a) = - rl a"
proof (cases a)
  case (I k)
  show ?thesis
  proof (cases "k = 2 ^ 63")
    case True
    then show ?thesis using I by simp
  next
    case False
    then have "- (2 ^ 63) < sint k" using sint_min[of k] sint_range(1)[of k] by fastforce
    then show ?thesis using I False by (simp add: sint_neg)
  qed
next
  case (F x)
  then show ?thesis by simp
qed

lemma length_vals: "length (vals a) = alen a" by (cases a) auto

lemma rl_item: "rl (item a i) = vals a ! i" if "i < alen a"
  using that by (cases a) auto

lemma smul_float: "smul (F c) a = FloatArr (map (\<lambda>x. c * x) (vals a))"
  by (cases a) auto

lemma smul_on_float: "smul c (FloatArr xs) = FloatArr (map (\<lambda>x. rl c * x) xs)"
  by (cases c) auto

lemma vals_np_abs_float: "vals (np_abs (FloatArr xs)) = map abs xs"
  by simp

lemma vals_np_abs_int:
  "\<forall>w \<in> set ts. - (2 ^ 63) < sint w \<Longrightarrow> vals (np_abs (IntArr ts)) = map abs (vals (IntArr ts))"
  by (auto simp add: sint_neg abs_if simp del: of_int_sint)

lemma no_wrap_axis:
  assumes "vals p = [kappa]" and "no_wrap p (IntArr ts)"
  shows "\<forall>w \<in> set ts. - (2 ^ 63) < sint w"
proof (cases p)
  case (IntArr ks)
  then obtain k where "ks = [k]" using assms(1) by (cases ks) auto
  then show ?thesis using assms(2) IntArr by simp
next
  case (FloatArr xs)
  then show ?thesis using assms(2) by simp
qed

lemma neg_times_abs:
  assumes k0: "0 \<le> sint (k :: 64 word)" and w: "- (2 ^ 63) < sint (w :: 64 word)"
    and b: "\<bar>sint k\<bar> * \<bar>sint w\<bar> < 2 ^ 63"
  shows "sint (- k * (if sint w < 0 then - w else w)) = - (sint k * \<bar>sint w\<bar>)"
proof -
  let ?a = "if sint w < 0 then - w else w"
  have sk: "sint (- k) = - sint k" using sint_neg[of k] k0 by simp
  have ab: "sint ?a = \<bar>sint w\<bar>" using sint_absw[OF w] .
  have nn: "0 \<le> sint k * \<bar>sint w\<bar>" using k0 by simp
  have lt: "sint k * \<bar>sint w\<bar> < 2 ^ 63" using b k0 by simp
  have prod: "sint (- k) * sint ?a = - (sint k * \<bar>sint w\<bar>)" by (simp only: sk ab mult_minus_left)
  have r1: "- (2 ^ 63) \<le> sint (- k) * sint ?a" using lt prod by linarith
  have "sint (- k) * sint ?a \<le> 0" using nn prod by simp
  then have r2: "sint (- k) * sint ?a < 2 ^ 63" by (rule le_less_trans) simp
  show ?thesis using sint_mult[OF r1 r2] by (simp only: prod)
qed

lemma int_exponent:
  assumes "\<And>w. w \<in> set ts \<Longrightarrow>
    sint (- k * (if sint w < 0 then - w else w)) = - (sint k * \<bar>sint w\<bar>)"
  shows "vals (smul (I (- k)) (np_abs (IntArr ts))) =
    map (\<lambda>x. - real_of_int (sint k) * \<bar>x\<bar>) (vals (IntArr ts))"
proof -
  have "real_of_int (sint (- k * (if sint w < 0 then - w else w)))
      = - real_of_int (sint k) * \<bar>real_of_int (sint w)\<bar>" if "w \<in> set ts" for w
  proof -
    have "real_of_int (sint (- k * (if sint w < 0 then - w else w)))
        = real_of_int (- (sint k * \<bar>sint w\<bar>))"
      by (simp only: assms[OF that])
    also have "\<dots> = - real_of_int (sint k) * \<bar>real_of_int (sint w)\<bar>"
      by (simp del: of_int_sint)
    finally show ?thesis .
  qed
  then show ?thesis
    by (simp only: smul.simps np_abs.simps vals.simps map_map o_def cong: map_cong)
qed

text \<open>The exponent \<^verbatim>\<open>-lam*kappa*np.abs(t)\<close> of \<^verbatim>\<open>bg_exp\<close> for \<^verbatim>\<open>lam = 1\<close>.\<close>

lemma exponent_exact:
  assumes k: "vals p = [kappa]" and nn: "0 \<le> kappa" and l: "rl lam = 1" and nw: "no_wrap p t"
  shows "vals (smul (nmul (nneg lam) (item p 0)) (np_abs t)) = map (\<lambda>x. - kappa * \<bar>x\<bar>) (vals t)"
proof -
  have n: "alen p = 1" using k length_vals[of p] by simp
  have kap: "rl (item p 0) = kappa" using rl_item[of 0 p] n k by simp
  have neg: "rl (nneg lam) = - 1" using rl_nneg[of lam] l by simp
  show ?thesis
  proof (cases "nmul (nneg lam) (item p 0)")
    case (F c)
    have "c = - kappa"
      using F kap neg by (cases "nneg lam"; cases "item p 0") auto
    show ?thesis
    proof (cases t)
      case (FloatArr xs)
      then show ?thesis using F \<open>c = - kappa\<close> by simp
    next
      case (IntArr ts)
      have "\<forall>w \<in> set ts. - (2 ^ 63) < sint w" using no_wrap_axis[OF k] nw IntArr by simp
      then show ?thesis using F \<open>c = - kappa\<close> IntArr vals_np_abs_int[of ts]
        by (simp add: smul_float del: np_abs.simps vals.simps) (simp add: o_def)
    qed
  next
    case (I s)
    then obtain a k' where a: "nneg lam = I a" and k': "item p 0 = I k'" and s: "s = a * k'"
      by (cases "nneg lam"; cases "item p 0") auto
    have a1: "a = - 1"
    proof -
      have "real_of_int (sint a) = of_int (- 1)" using neg a by (simp del: of_int_sint)
      then have "sint a = - 1" by (simp only: of_int_eq_iff)
      then have "sint a = sint (- 1 :: 64 word)" by simp
      then show ?thesis by (rule signed_word_eqI)
    qed
    have kk: "of_int (sint k') = kappa" using kap k' by simp
    then have k0: "0 \<le> sint k'" using nn by (metis of_int_0_le_iff)
    then have sk: "sint (- k') = - sint k'" using sint_neg[of k'] by simp
    have s': "s = - k'" using s a1 by simp
    obtain ks where p: "p = IntArr ks" using k' by (cases p) auto
    then have ks: "ks = [k']" using k' k by (cases ks) auto
    show ?thesis
    proof (cases t)
      case (FloatArr xs)
      then show ?thesis using I s' sk kk by (simp add: o_def)
    next
      case (IntArr ts)
      have w: "\<forall>w \<in> set ts. - (2 ^ 63) < sint w \<and> \<bar>sint k'\<bar> * \<bar>sint w\<bar> < 2 ^ 63"
        using nw IntArr p ks by simp
      have "sint (- k' * (if sint w < 0 then - w else w)) = - (sint k' * \<bar>sint w\<bar>)"
        if "w \<in> set ts" for w
        using neg_times_abs[OF k0, of w] w that by blast
      then show ?thesis using int_exponent[of ts k'] I s' IntArr kk
        by (simp only: of_int_sint)
    qed
  qed
qed

lemma body_exp_value:
  assumes "vals (h ! p) = [kappa]" and "0 \<le> kappa" and "rl lam = 1" and "no_wrap (h ! p) (h ! t)"
  shows "body_exp h t p lam =
    (Inr (Curve (FloatArr (map (\<lambda>x. exp (- kappa * \<bar>x\<bar>)) (vals (h ! t))))), h)"
  using exponent_exact[OF assms] by (simp add: body_exp_def np_exp_def)

text \<open>
  Claim C8 says that \<^verbatim>\<open>bg_exp(t, [kappa], 1)\<close> is \<^verbatim>\<open>exp(-kappa*|t|)\<close> for every time axis and
  every \<^verbatim>\<open>kappa >= 0\<close>. On integer arrays numpy computes \<^verbatim>\<open>-lam*kappa*np.abs(t)\<close> in
  \<^verbatim>\<open>int64\<close>, which wraps around: the counterexample after the theorem has \<^verbatim>\<open>2**32\<close> for
  both. What holds: with \<^verbatim>\<open>lam\<close> equal to 1, given or left out, \<^verbatim>\<open>bg_exp\<close> returns
  \<^verbatim>\<open>exp(-kappa*|t|)\<close> entry by entry for every float time axis, and for an integer time axis
  on which \<^verbatim>\<open>abs(t)\<close> and, for an integer \<^verbatim>\<open>kappa\<close>, the products \<^verbatim>\<open>kappa*abs(t)\<close> stay
  within \<^verbatim>\<open>int64\<close>. The witness is the scenario of the specification:
  \<^verbatim>\<open>bg_exp([0,1,2], [0.5])\<close>.
\<close>

theorem bg_exp_value:
  assumes "ok h t" and "ok h p" and "vals (asarray h p) = [kappa]" and "0 \<le> kappa" and "rl lam = 1"
    and "no_wrap (asarray h p) (asarray h t)"
  shows "fst (bg_exp [t, p, PyNum lam] h) =
           Inr (Curve (FloatArr (map (\<lambda>x. exp (- kappa * \<bar>x\<bar>)) (vals (asarray h t)))))
       \<and> fst (bg_exp [t, p] h) =
           Inr (Curve (FloatArr (map (\<lambda>x. exp (- kappa * \<bar>x\<bar>)) (vals (asarray h t)))))"
proof -
  have n: "alen (asarray h p) = 1" using assms(3) length_vals[of "asarray h p"] by simp
  have *: "fst (bg_exp [t, p, PyNum l] h) =
           Inr (Curve (FloatArr (map (\<lambda>x. exp (- kappa * \<bar>x\<bar>)) (vals (asarray h t)))))"
    if "rl l = 1" for l
  proof -
    obtain tr pr where c: "compute info_exp 1 body_exp [t, p, PyNum l] h = body_exp (coerced t p h) tr pr l"
      "coerced t p h ! tr = asarray h t" "coerced t p h ! pr = asarray h p"
      using compute_body[OF assms(1,2) n, of info_exp body_exp l] by auto
    show ?thesis
      using body_exp_value[of "coerced t p h" pr kappa l tr] c assms(3,4,6) that
      by (simp add: bg_exp_def)
  qed
  show ?thesis using *[of lam] *[of "I 1"] assms(5)
    by (simp add: bg_exp_def compute_default)
qed

theorem bg_exp_value_witness:
  "ok [] (PyList [I 0, I 1, I 2]) \<and> ok [] (PyList [F 0.5])
   \<and> vals (asarray [] (PyList [F 0.5])) = [0.5] \<and> (0::real) \<le> 0.5 \<and> rl (I 1) = 1
   \<and> no_wrap (asarray [] (PyList [F 0.5])) (asarray [] (PyList [I 0, I 1, I 2]))
   \<and> fst (bg_exp [PyList [I 0, I 1, I 2], PyList [F 0.5]] []) =
        Inr (Curve (FloatArr [1, exp (- 0.5), exp (- 1)]))"
  using bg_exp_value[where h = "[]" and t = "PyList [I 0, I 1, I 2]" and p = "PyList [F 0.5]"
      and kappa = "0.5" and lam = "I 1"]
  by (simp add: array_of_def)

text \<open>
  The counterexample to claim C8 as it is stated: the integers \<^verbatim>\<open>t = [2**32]\<close> and
  \<^verbatim>\<open>kappa = 2**32\<close>, whose product \<^verbatim>\<open>2**64\<close> is 0 in \<^verbatim>\<open>int64\<close>. The call returns 1, where the
  claim has \<^verbatim>\<open>exp(-2**64)\<close>.
\<close>

theorem bg_exp_wrap_counterexample:
  "vals (asarray [] (PyList [I (2 ^ 32)])) = [2 ^ 32]
   \<and> fst (bg_exp [PyList [I (2 ^ 32)], PyList [I (2 ^ 32)]] []) = Inr (Curve (FloatArr [1]))
   \<and> map (\<lambda>x. exp (- (2 ^ 32) * \<bar>x\<bar>)) [2 ^ 32 :: real] \<noteq> [1]"
  by (simp add: bg_exp_def compute_def parsargs_def alloc_def array_of_def body_exp_def np_exp_def)

section \<open>The product of two stretched exponentials\<close>

lemma alen_items: "length (items a) = alen a" by (cases a) auto
lemma item_items: "i < alen a \<Longrightarrow> item a i = items a ! i" by (cases a) auto

lemma body_strexp_fst:
  assumes "items (h ! p) = [kappa, d]"
  shows "fst (body_strexp h t p lam) = map_sum id Curve (strexp lam kappa d (h ! t))"
proof -
  have "alen (h ! p) = 2" using assms alen_items[of "h ! p"] by simp
  then have "item (h ! p) 0 = kappa" "item (h ! p) 1 = d"
    using item_items[of 0 "h ! p"] item_items[of 1 "h ! p"] assms by simp_all
  then show ?thesis by (simp add: body_strexp_def split: sum.splits)
qed

lemma body_prodstrexp_fst:
  assumes "items (h ! p) = [kappa1, d1, kappa2, d2]"
  shows "fst (body_prodstrexp h t p lam) =
     curve_product (map_sum id Curve (strexp lam kappa1 d1 (h ! t)))
                   (map_sum id Curve (strexp lam kappa2 d2 (h ! t)))"
proof -
  have "alen (h ! p) = 4" using assms alen_items[of "h ! p"] by simp
  then have "item (h ! p) 0 = kappa1" "item (h ! p) 1 = d1" "item (h ! p) 2 = kappa2" "item (h ! p) 3 = d2"
    using item_items[of 0 "h ! p"] item_items[of 1 "h ! p"] item_items[of 2 "h ! p"]
      item_items[of 3 "h ! p"] assms by simp_all
  then show ?thesis by (simp add: body_prodstrexp_def split: sum.splits)
qed

text \<open>
  Claim C10 says that \<^verbatim>\<open>bg_prodstrexp(t, [kappa1, d1, kappa2, d2], lam)\<close> is the product,
  entry by entry, of \<^verbatim>\<open>bg_strexp(t, [kappa1, d1], lam)\<close> and
  \<^verbatim>\<open>bg_strexp(t, [kappa2, d2], lam)\<close>, for every quadruple. numpy gives an array one element
  type: in the list \<^verbatim>\<open>[0.5, -1, 1, -1]\<close> all four entries become floats, while its half
  \<^verbatim>\<open>[1, -1]\<close> is an integer array, and the two calls then compute different powers (see the
  counterexample after the theorem). What holds: when the three parameter arrays hold the
  same numbers with the same element type, as a quadruple array and its two halves do, the
  product model is the product of the two calls, also when \<^verbatim>\<open>lam\<close> is left out, and an
  exception of one of the two calls is the exception of the product.
\<close>

theorem prodstrexp_product:
  assumes "ok h t" and "ok h p" and "ok h p1" and "ok h p2"
    and "items (asarray h p) = [kappa1, d1, kappa2, d2]"
    and "items (asarray h p1) = [kappa1, d1]"
    and "items (asarray h p2) = [kappa2, d2]"
  shows "fst (bg_prodstrexp [t, p, PyNum lam] h) =
           curve_product (fst (bg_strexp [t, p1, PyNum lam] h)) (fst (bg_strexp [t, p2, PyNum lam] h))
       \<and> fst (bg_prodstrexp [t, p] h) =
           curve_product (fst (bg_strexp [t, p1] h)) (fst (bg_strexp [t, p2] h))"
proof -
  have n: "alen (asarray h p) = 4" "alen (asarray h p1) = 2" "alen (asarray h p2) = 2"
    using assms(5,6,7) alen_items[of "asarray h p"] alen_items[of "asarray h p1"]
      alen_items[of "asarray h p2"] by simp_all
  have *: "fst (bg_prodstrexp [t, p, PyNum l] h) =
           curve_product (fst (bg_strexp [t, p1, PyNum l] h)) (fst (bg_strexp [t, p2, PyNum l] h))" for l
  proof -
    obtain tr pr where a: "compute info_prodstrexp 4 body_prodstrexp [t, p, PyNum l] h
          = body_prodstrexp (coerced t p h) tr pr l"
      "coerced t p h ! tr = asarray h t" "coerced t p h ! pr = asarray h p"
      using compute_body[OF assms(1,2) n(1), of info_prodstrexp body_prodstrexp l] by auto
    obtain tr1 pr1 where b: "compute info_strexp 2 body_strexp [t, p1, PyNum l] h
          = body_strexp (coerced t p1 h) tr1 pr1 l"
      "coerced t p1 h ! tr1 = asarray h t" "coerced t p1 h ! pr1 = asarray h p1"
      using compute_body[OF assms(1,3) n(2), of info_strexp body_strexp l] by auto
    obtain tr2 pr2 where c: "compute info_strexp 2 body_strexp [t, p2, PyNum l] h
          = body_strexp (coerced t p2 h) tr2 pr2 l"
      "coerced t p2 h ! tr2 = asarray h t" "coerced t p2 h ! pr2 = asarray h p2"
      using compute_body[OF assms(1,4) n(3), of info_strexp body_strexp l] by auto
    show ?thesis
      using body_prodstrexp_fst[of "coerced t p h" pr kappa1 d1 kappa2 d2 tr l]
        body_strexp_fst[of "coerced t p1 h" pr1 kappa1 d1 tr1 l]
        body_strexp_fst[of "coerced t p2 h" pr2 kappa2 d2 tr2 l]
        a b c assms(5,6,7)
      by (simp add: bg_prodstrexp_def bg_strexp_def)
  qed
  show ?thesis using *[of lam] *[of "I 1"]
    by (simp add: bg_prodstrexp_def bg_strexp_def compute_default)
qed

theorem prodstrexp_product_witness:
  "ok [] (PyList [I 0, I 2]) \<and> ok [] (PyList [F 0.25, F 1, F 0.5, F 2])
   \<and> ok [] (PyList [F 0.25, F 1]) \<and> ok [] (PyList [F 0.5, F 2])
   \<and> items (asarray [] (PyList [F 0.25, F 1, F 0.5, F 2])) = [F 0.25, F 1, F 0.5, F 2]
   \<and> items (asarray [] (PyList [F 0.25, F 1])) = [F 0.25, F 1]
   \<and> items (asarray [] (PyList [F 0.5, F 2])) = [F 0.5, F 2]
   \<and> fst (bg_prodstrexp [PyList [I 0, I 2], PyList [F 0.25, F 1, F 0.5, F 2], PyNum (F 1)] []) =
       curve_product (fst (bg_strexp [PyList [I 0, I 2], PyList [F 0.25, F 1], PyNum (F 1)] []))
                     (fst (bg_strexp [PyList [I 0, I 2], PyList [F 0.5, F 2], PyNum (F 1)] []))
   \<and> fst (bg_strexp [PyList [I 0, I 2], PyList [F 0.25, F 1], PyNum (F 1)] []) =
       Inr (Curve (FloatArr [1, exp (- 0.5)]))
   \<and> fst (bg_strexp [PyList [I 0, I 2], PyList [F 0.5, F 2], PyNum (F 1)] []) =
       Inr (Curve (FloatArr [1, exp (- 2)]))
   \<and> fst (bg_prodstrexp [PyList [I 0, I 2], PyList [F 0.25, F 1, F 0.5, F 2], PyNum (F 1)] []) =
       Inr (Curve (FloatArr [1, exp (- 0.5) * exp (- 2)]))"
  using prodstrexp_product[where h = "[]" and t = "PyList [I 0, I 2]"
      and p = "PyList [F 0.25, F 1, F 0.5, F 2]" and ?p1.0 = "PyList [F 0.25, F 1]"
      and ?p2.0 = "PyList [F 0.5, F 2]" and ?kappa1.0 = "F 0.25" and ?d1.0 = "F 1"
      and ?kappa2.0 = "F 0.5" and ?d2.0 = "F 2" and lam = "F 1"]
  by (simp add: array_of_def bg_strexp_def compute_def parsargs_def alloc_def body_strexp_def
      strexp_def pow_bad_def pw_def np_exp_def)

text \<open>
  The counterexample to claim C10 as it is stated: the integer time axis \<^verbatim>\<open>[1, 2]\<close> and the
  quadruple \<^verbatim>\<open>[0.5, -1, 1, -1]\<close>. The product model returns a curve; \<^verbatim>\<open>bg_strexp\<close> on the
  second half \<^verbatim>\<open>[1, -1]\<close> raises numpy's error for a negative integer power of integers.
\<close>

theorem prodstrexp_mixed_counterexample:
  "fst (bg_prodstrexp [PyList [I 1, I 2], PyList [F 0.5, I (- 1), I 1, I (- 1)], PyNum (I 1)] []) =
     Inr (Curve (FloatArr [exp (- 0.5) * exp (- 1),
                           exp (- (0.5 * 2 powr (- 1))) * exp (- (2 powr (- 1)))]))
   \<and> fst (bg_strexp [PyList [I 1, I 2], PyList [I 1, I (- 1)], PyNum (I 1)] []) =
     Inl (ValueError neg_pow_msg)
   \<and> fst (bg_prodstrexp [PyList [I 1, I 2], PyList [F 0.5, I (- 1), I 1, I (- 1)], PyNum (I 1)] []) \<noteq>
     curve_product (fst (bg_strexp [PyList [I 1, I 2], PyList [F 0.5, I (- 1)], PyNum (I 1)] []))
                   (fst (bg_strexp [PyList [I 1, I 2], PyList [I 1, I (- 1)], PyNum (I 1)] []))"
  by (simp add: array_of_def bg_strexp_def bg_prodstrexp_def compute_def parsargs_def alloc_def
      body_strexp_def body_prodstrexp_def strexp_def pow_bad_def pw_def np_exp_def)

section \<open>The excluded-volume model without excluded volume\<close>

lemma body_hom3dex_R0:
  assumes "vals (h ! p) = [c, 0]"
  shows "body_hom3dex tab h t p lam =
    (Inr (Curve (FloatArr (map (\<lambda>x. exp (- rl lam * (c * (1 / 10 ^ 6) * 1000 * NA)
                * (8 * pi ^ 2 / (9 * sqrt 3) * dipolar * \<bar>x * (1 / 10 ^ 6)\<bar>))) (vals (h ! t))))), h)"
proof -
  have "alen (h ! p) = 2" using assms length_vals[of "h ! p"] by simp
  then have "rl (item (h ! p) 0) = c" "rl (item (h ! p) 1) = 0"
    using rl_item[of 0 "h ! p"] rl_item[of 1 "h ! p"] assms by simp_all
  then show ?thesis
    by (simp add: body_hom3dex_def Let_def o_def)
qed

text \<open>
  Claim C4. When the second parameter of \<^verbatim>\<open>bg_hom3dex\<close> is 0, the reduction factor is 1 at
  every time point: the call returns the curve \<^verbatim>\<open>exp(-lam*c'*(8pi^2/(9sqrt(3)))*A*|t*1e-6|)\<close>
  with \<^verbatim>\<open>c' = c*1e-6*1e3*NA\<close>, whatever the lookup table is, and no division takes place.
\<close>

theorem hom3dex_zero_radius:
  assumes "ok h t" and "ok h p" and "vals (asarray h p) = [c, 0]"
  shows "fst (bg_hom3dex tab [t, p, PyNum lam] h) =
      Inr (Curve (FloatArr (map (\<lambda>x. exp (- rl lam * (c * (1 / 10 ^ 6) * 1000 * NA)
                * (8 * pi ^ 2 / (9 * sqrt 3) * dipolar * \<bar>x * (1 / 10 ^ 6)\<bar>))) (vals (asarray h t)))))"
proof -
  have n: "alen (asarray h p) = 2" using assms(3) length_vals[of "asarray h p"] by simp
  obtain tr pr where c: "compute info_hom3dex 2 (body_hom3dex tab) [t, p, PyNum lam] h
        = body_hom3dex tab (coerced t p h) tr pr lam"
    "coerced t p h ! tr = asarray h t" "coerced t p h ! pr = asarray h p"
    using compute_body[OF assms(1,2) n, of info_hom3dex "body_hom3dex tab" lam] by auto
  show ?thesis
    using body_hom3dex_R0[of "coerced t p h" pr c tab tr lam] c assms(3)
    by (simp add: bg_hom3dex_def)
qed

theorem hom3dex_zero_radius_witness:
  "ok [] (PyList [F 0, F (- 2)]) \<and> ok [] (PyList [F 50, F 0]) \<and> vals (asarray [] (PyList [F 50, F 0])) = [50, 0]
   \<and> fst (bg_hom3dex ([1, 2], [0.9, 0.95]) [PyList [F 0, F (- 2)], PyList [F 50, F 0], PyNum (F 0.5)] []) =
      Inr (Curve (FloatArr [1, exp (- 0.5 * (50 * (1 / 10 ^ 6) * 1000 * NA)
                * (8 * pi ^ 2 / (9 * sqrt 3) * dipolar * (2 / 10 ^ 6)))]))"
  using hom3dex_zero_radius[where h = "[]" and t = "PyList [F 0, F (- 2)]" and p = "PyList [F 50, F 0]"
      and c = 50 and tab = "([1, 2], [0.9, 0.95])" and lam = "F 0.5"]
  by (simp add: array_of_def)

section \<open>The first-order polynomial\<close>

lemma body_poly_eq:
  assumes "t < length h"
  shows "body_poly h t p lam =
    (Inr (Curve (polyval (scale_head lam (flip (h ! p))) (np_abs (h ! t)))),
     h @ [scale_head lam (flip (h ! p))])"
  using assms by (simp add: body_poly_def alloc_def nth_append)

lemma amul_float: "amul (FloatArr xs) b = FloatArr (map2 (*) xs (vals b))"
  by (cases b) auto

lemma sadd_float: "sadd a (F c) = FloatArr (map (\<lambda>x. x + c) (vals a))"
  by (cases a) auto

lemma map2_same: "map2 f (map g xs) (map k xs) = map (\<lambda>x. f (g x) (k x)) xs"
  by (induction xs) auto

lemma zeros_times: "map2 (*) (replicate (length xs) 0) xs = map (\<lambda>v. 0) (xs :: 'a :: mult_zero list)"
  by (induction xs) auto

lemma vals_zero_step: "vals (amul (zeros_like x) x) = map (\<lambda>v. 0) (vals x)"
  by (cases x) (simp_all add: zeros_times)

lemma polyval_float2:
  "polyval (FloatArr [c1, c0]) x = FloatArr (map (\<lambda>v. c1 * v + c0) (vals x))"
proof -
  have 2: "sadd (amul (zeros_like x) x) (F c1) = FloatArr (map (\<lambda>v. c1) (vals x))"
    by (simp add: sadd_float vals_zero_step)
  have 3: "sadd (amul (FloatArr (map (\<lambda>v. c1) (vals x))) x) (F c0)
      = FloatArr (map (\<lambda>v. c1 * v + c0) (vals x))"
    using map2_same[of "(*)" "\<lambda>v. c1" "vals x" "\<lambda>v. v"]
    by (simp add: amul_float sadd_float o_def)
  have "polyval (FloatArr [c1, c0]) x =
      sadd (amul (sadd (amul (zeros_like x) x) (F c1)) x) (F c0)"
    by (simp add: polyval_def)
  then show ?thesis by (simp only: 2 3)
qed

lemma poly1_float:
  assumes "ok h t" and "ok h p" and "asarray h p = FloatArr [a0, a1]"
  shows "fst (bg_poly1 [t, p, PyNum lam] h) =
      Inr (Curve (FloatArr (map (\<lambda>x. rl lam * a1 * x + a0) (vals (np_abs (asarray h t))))))"
proof -
  have n: "alen (asarray h p) = 2" using assms(3) by simp
  obtain tr pr where c: "compute info_poly1 2 body_poly [t, p, PyNum lam] h
        = body_poly (coerced t p h) tr pr lam"
    "tr < length (coerced t p h)"
    "coerced t p h ! tr = asarray h t" "coerced t p h ! pr = asarray h p"
    using compute_body[OF assms(1,2) n, of info_poly1 body_poly lam] by auto
  show ?thesis
    using body_poly_eq[OF c(2), of pr lam] c assms(3)
    by (simp add: bg_poly1_def polyval_float2)
qed

lemma ceiling_minus_half: "\<lceil>- (1 / 2) :: real\<rceil> = 0"
  by (simp add: ceiling_eq_iff)

text \<open>
  For a float parameter array \<^verbatim>\<open>[a0, a1]\<close> the model is \<^verbatim>\<open>a0 + lam*a1*abs(t)\<close> (lemma
  \<open>poly1_float\<close>), and the scenario of the specification, with integers and \<^verbatim>\<open>lam = 1\<close>,
  gives \<^verbatim>\<open>[1, -1]\<close>.
\<close>

lemma poly1_scenario:
  "fst (bg_poly1 [PyList [I 0, I 2], PyList [I 1, I (- 1)], PyNum (I 1)] []) =
     Inr (Curve (IntArr [1, - 1]))"
  by (simp add: bg_poly1_def compute_def parsargs_def alloc_def array_of_def body_poly_def
      polyval_def)

text \<open>
  Claim C5 says that \<^verbatim>\<open>bg_poly1(t, [a0, a1], lam)\<close> is \<^verbatim>\<open>a0 + lam*a1*|t|\<close> for every
  \<^verbatim>\<open>a0\<close>, \<^verbatim>\<open>a1\<close> and \<^verbatim>\<open>lam\<close>. For the integer parameters \<^verbatim>\<open>[1, -1]\<close> of its own example
  (the start values of the descriptor) and \<^verbatim>\<open>lam = 0.5\<close> the code returns \<^verbatim>\<open>[1, 1]\<close> on the
  time axis \<^verbatim>\<open>[0, 2]\<close>, where the formula gives \<^verbatim>\<open>[1, 0]\<close>: the copy of the reversed
  parameters is an integer array, and storing \<^verbatim>\<open>0.5 * -1\<close> into it truncates to 0.
\<close>

theorem poly1_integer_truncation:
  "fst (bg_poly1 [PyList [I 0, I 2], PyList [I 1, I (- 1)], PyNum (F 0.5)] []) =
     Inr (Curve (IntArr [1, 1]))
   \<and> map (\<lambda>x. 1 + 0.5 * (- 1) * \<bar>x\<bar>) [0, 2 :: real] = [1, 0]"
  by (simp add: bg_poly1_def compute_def parsargs_def alloc_def array_of_def body_poly_def
      polyval_def trunc_def ceiling_minus_half)

section \<open>The caller's arrays\<close>

lemma frame_refl: "frame h h" by (simp add: frame_def)

lemma frame_trans: "frame h h1 \<Longrightarrow> frame h1 h2 \<Longrightarrow> frame h h2"
  by (auto simp: frame_def)

lemma frame_alloc_update: "frame h ((h @ [a])[length h := b])"
  by (simp add: frame_def nth_append)

lemma frame_coerced: "ok h t \<Longrightarrow> ok h p \<Longrightarrow> frame h (coerced t p h)"
  using coerced_frame[of h t p] by (simp add: frame_def)

lemma frame_body_exp: "frame h (snd (body_exp h t p lam))"
  by (simp add: body_exp_def frame_refl Let_def)

lemma frame_body_hom3d: "frame h (snd (body_hom3d h t p lam))"
  by (simp add: body_hom3d_def frame_refl Let_def split: sum.splits)

lemma frame_body_strexp: "frame h (snd (body_strexp h t p lam))"
  by (simp add: body_strexp_def frame_refl Let_def split: sum.splits)

lemma frame_body_prodstrexp: "frame h (snd (body_prodstrexp h t p lam))"
  by (simp add: body_prodstrexp_def frame_refl Let_def split: sum.splits)

lemma frame_body_sumstrexp: "frame h (snd (body_sumstrexp h t p lam))"
  by (simp add: body_sumstrexp_def frame_refl Let_def split: sum.splits)

lemma frame_body_homfractal: "frame h (snd (body_homfractal gamma quad h t p lam))"
  by (simp add: body_homfractal_def frame_refl Let_def split: sum.splits)

lemma frame_body_poly: "frame h (snd (body_poly h t p lam))"
  by (simp add: body_poly_def alloc_def frame_def nth_append Let_def)

lemma frame_body_hom3dex: "frame h (snd (body_hom3dex tab h t p lam))"
  by (simp add: body_hom3dex_def alloc_def frame_def nth_append Let_def)

lemma model_frame:
  assumes "(n, f) \<in> set (models tab gamma quad)"
  shows "\<exists>desc body. f = compute desc n body \<and> (\<forall>h t p lam. frame h (snd (body h t p lam)))"
  using assms
  by (auto simp: models_def bg_exp_def bg_hom3d_def bg_hom3dex_def bg_homfractal_def
      bg_strexp_def bg_prodstrexp_def bg_sumstrexp_def bg_poly1_def bg_poly2_def bg_poly3_def
      intro: frame_body_exp frame_body_hom3d frame_body_strexp frame_body_prodstrexp
        frame_body_sumstrexp frame_body_homfractal frame_body_poly frame_body_hom3dex)

lemma compute_snd:
  assumes "ok h t" and "ok h p"
  shows "snd (compute desc n body [t, p, lam] h) = coerced t p h
       \<or> (\<exists>tr pr l. compute desc n body [t, p, lam] h = body (coerced t p h) tr pr l)"
proof -
  obtain tr pr where r: "parsargs [t, p, lam] n h =
      ((if alen (asarray h p) \<noteq> n then Inl (ValueError (count_msg n (alen (asarray h p))))
        else Inr (tr, pr, lam)), coerced t p h)"
    using parsargs3[OF assms, of lam n] by auto
  show ?thesis
  proof (cases "alen (asarray h p) \<noteq> n")
    case True
    then show ?thesis using r by (simp add: compute_def)
  next
    case False
    then show ?thesis using r by (cases lam) (auto simp: compute_def)
  qed
qed

lemma compute_frame:
  assumes b: "\<And>h t p lam. frame h (snd (body h t p lam))"
    and a: "list_all (ok h) args"
  shows "frame h (snd (compute desc n body args h))"
proof -
  have two: "frame h (snd (compute desc n body [t, p, lam] h))" if "ok h t" "ok h p" for t p lam
    using compute_snd[OF that, of desc n body lam] frame_coerced[OF that]
      b[of "coerced t p h"] frame_trans[of h "coerced t p h"]
    by (metis)
  show ?thesis
  proof (cases args)
    case Nil
    then show ?thesis by (simp add: compute_def frame_refl)
  next
    case (Cons t as)
    note c1 = this
    show ?thesis
    proof (cases as)
      case Nil
      then show ?thesis using compute_arity[of args desc n body h] c1 by (simp add: frame_refl)
    next
      case (Cons p bs)
      note c2 = this
      show ?thesis
      proof (cases bs)
        case Nil
        then show ?thesis using two[of t p "PyNum (I 1)"] a c1 c2 by (simp add: compute_default)
      next
        case (Cons lam cs)
        note c3 = this
        show ?thesis
        proof (cases cs)
          case Nil
          then show ?thesis using two[of t p lam] a c1 c2 c3 by simp
        next
          case (Cons x xs)
          then show ?thesis using compute_arity[of args desc n body h] c1 c2 c3
            by (simp add: frame_refl)
        qed
      qed
    qed
  qed
qed

text \<open>
  Claim C9. A call of any model, with any arguments, leaves every array that was in the
  store as it was: the time axis and the parameter vector of the caller hold the values
  they held before the call. The polynomial models write into a new array, the copy of the
  reversed parameters; in the witness the parameters \<^verbatim>\<open>[1, -1]\<close> are still in the store
  after the call, next to the scaled copy.
\<close>

theorem inputs_unchanged:
  assumes "(n, f) \<in> set (models tab gamma quad)" and "list_all (ok h) args"
  shows "frame h (snd (f args h))"
proof -
  obtain desc body where f: "f = compute desc n body"
    and b: "\<And>h t p lam. frame h (snd (body h t p lam))"
    using model_frame[OF assms(1)] by blast
  show ?thesis using compute_frame[of body h args desc n] b assms(2) by (simp add: f)
qed

theorem inputs_unchanged_witness:
  "(2, bg_poly1) \<in> set (models ([], []) (\<lambda>x. x) (\<lambda>f a b n. (0, 0)))
   \<and> list_all (ok [IntArr [1, - 1], FloatArr [0, 2]]) [NdArray 1, NdArray 0, PyNum (F 0.5)]
   \<and> frame [IntArr [1, - 1], FloatArr [0, 2]]
        (snd (bg_poly1 [NdArray 1, NdArray 0, PyNum (F 0.5)] [IntArr [1, - 1], FloatArr [0, 2]]))
   \<and> snd (bg_poly1 [NdArray 1, NdArray 0, PyNum (F 0.5)] [IntArr [1, - 1], FloatArr [0, 2]]) =
        [IntArr [1, - 1], FloatArr [0, 2], IntArr [0, 1]]"
  using inputs_unchanged[where n = 2 and f = bg_poly1 and tab = "([], [])" and gamma = "\<lambda>x. x"
      and quad = "\<lambda>f a b n. (0, 0)" and h = "[IntArr [1, - 1], FloatArr [0, 2]]"
      and args = "[NdArray 1, NdArray 0, PyNum (F 0.5)]"]
  by (simp add: models_def bg_poly1_def compute_def parsargs_def body_poly_def alloc_def
      trunc_def ceiling_minus_half)

section \<open>The value at time zero\<close>

lemma value_at_compute:
  assumes "ok h t" and "ok h p" and "alen (asarray h p) = n"
  obtains tr pr where
    "value_at (compute desc n body [t, p, PyNum lam] h) i = value_at (body (coerced t p h) tr pr lam) i"
    "tr < length (coerced t p h)" "pr < length (coerced t p h)"
    "coerced t p h ! tr = asarray h t" "coerced t p h ! pr = asarray h p"
  using compute_body[OF assms, of desc body lam] by auto

lemma value_at_curve: "i < length xs \<Longrightarrow> value_at (Inr (Curve (FloatArr xs)), h) i = Some (xs ! i)"
  by (simp add: value_at_def)

lemma sint_real_zero: "real_of_int (sint (k :: 64 word)) = 0 \<Longrightarrow> k = 0"
  using sint_zero[of k] by (simp del: of_int_sint)

lemma alen_np_abs: "alen (np_abs a) = alen a" by (cases a) auto

lemma np_abs_zero:
  assumes "i < alen a" and "vals a ! i = 0"
  shows "vals (np_abs a) ! i = 0"
proof (cases a)
  case (IntArr ks)
  then have "ks ! i = 0" using assms sint_real_zero[of "ks ! i"] by (simp del: of_int_sint)
  then show ?thesis using IntArr assms(1) by simp
next
  case (FloatArr xs)
  then show ?thesis using assms by simp
qed

lemma alen_smul: "alen (smul c a) = alen a" by (cases c; cases a) auto

lemma smul_zero:
  assumes "i < alen a" and "vals a ! i = 0"
  shows "vals (smul c a) ! i = 0"
proof (cases a)
  case (IntArr ks)
  then have k: "ks ! i = 0" using assms sint_real_zero[of "ks ! i"] by (simp del: of_int_sint)
  show ?thesis using IntArr assms(1) k by (cases c) simp_all
next
  case (FloatArr xs)
  then show ?thesis using assms by (cases c) simp_all
qed

lemma body_exp_zero:
  assumes "vals (h ! p) = [kappa]" and "i < alen (h ! t)" and "vals (h ! t) ! i = 0"
  shows "value_at (body_exp h t p lam) i = Some 1"
proof -
  have "vals (smul (nmul (nneg lam) (item (h ! p) 0)) (np_abs (h ! t))) ! i = 0"
    using smul_zero[of i "np_abs (h ! t)"] np_abs_zero[OF assms(2,3)] assms(2)
    by (simp add: alen_np_abs)
  moreover have "i < length (vals (smul (nmul (nneg lam) (item (h ! p) 0)) (np_abs (h ! t))))"
    using assms(2) by (simp add: length_vals alen_smul alen_np_abs)
  ultimately show ?thesis
    by (simp add: body_exp_def np_exp_def value_at_curve)
qed

lemma body_hom3d_zero:
  assumes "vals (h ! p) = [c]" and "i < alen (h ! t)" and "vals (h ! t) ! i = 0"
  shows "value_at (body_hom3d h t p lam) i = Some 1"
  using assms
  by (auto simp: body_hom3d_def bmul_def value_at_curve length_vals Let_def)

lemma apow_zero:
  assumes "0 < rl d" and "i < alen a" and "vals a ! i = 0"
  shows "\<exists>r. apow a d = Inr r \<and> alen r = alen a \<and> vals r ! i = 0"
proof (cases a)
  case (IntArr ks)
  then have k: "ks ! i = 0" using assms(2,3) sint_real_zero[of "ks ! i"] by (simp del: of_int_sint)
  show ?thesis
  proof (cases d)
    case (I e)
    then have "0 < sint e" using assms(1) by (simp del: of_int_sint)
    then show ?thesis using assms(2) IntArr I k by (simp add: power_0_left)
  next
    case (F x)
    then show ?thesis using assms IntArr by (simp add: pow_bad_def pw_def)
  qed
next
  case (FloatArr xs)
  then show ?thesis using assms by (cases d) (simp_all add: pow_bad_def pw_def)
qed

lemma strexp_zero:
  assumes "0 < rl d" and "i < alen t" and "vals t ! i = 0"
  shows "\<exists>B. strexp lam kappa d t = Inr (FloatArr B) \<and> length B = alen t \<and> B ! i = 1"
proof -
  have "i < alen (np_abs t)" "vals (np_abs t) ! i = 0"
    using assms(2,3) np_abs_zero[of i t] by (simp_all add: alen_np_abs)
  then obtain r where r: "apow (np_abs t) d = Inr r" "alen r = alen t" "vals r ! i = 0"
    using apow_zero[OF assms(1), of i "np_abs t"] by (auto simp: alen_np_abs)
  have z: "vals (smul (nmul (nneg lam) kappa) r) ! i = 0"
    using smul_zero[of i r] r(2,3) assms(2) by simp
  have l: "length (vals (smul (nmul (nneg lam) kappa) r)) = alen t"
    using r(2) by (simp add: length_vals alen_smul)
  show ?thesis using r(1) z l assms(2)
    by (simp add: strexp_def np_exp_def)
qed

lemma body_strexp_zero:
  assumes "vals (h ! p) = [kappa, d]" and "0 < d" and "i < alen (h ! t)" and "vals (h ! t) ! i = 0"
  shows "value_at (body_strexp h t p lam) i = Some 1"
proof -
  have "alen (h ! p) = 2" using assms(1) length_vals[of "h ! p"] by simp
  then have "0 < rl (item (h ! p) 1)" using rl_item[of 1 "h ! p"] assms(1,2) by simp
  from strexp_zero[OF this assms(3,4), of lam "item (h ! p) 0"] assms(3)
  show ?thesis by (auto simp: body_strexp_def value_at_curve)
qed

lemma body_prodstrexp_zero:
  assumes "vals (h ! p) = [kappa1, d1, kappa2, d2]" and "0 < d1" and "0 < d2"
    and "i < alen (h ! t)" and "vals (h ! t) ! i = 0"
  shows "value_at (body_prodstrexp h t p lam) i = Some 1"
proof -
  have "alen (h ! p) = 4" using assms(1) length_vals[of "h ! p"] by simp
  then have d: "0 < rl (item (h ! p) 1)" "0 < rl (item (h ! p) 3)"
    using rl_item[of 1 "h ! p"] rl_item[of 3 "h ! p"] assms(1,2,3) by simp_all
  from strexp_zero[OF d(1) assms(4,5), of lam "item (h ! p) 0"]
    strexp_zero[OF d(2) assms(4,5), of lam "item (h ! p) 2"] assms(4)
  show ?thesis by (auto simp: body_prodstrexp_def value_at_curve)
qed

lemma body_sumstrexp_zero:
  assumes "vals (h ! p) = [kappa1, d1, w1, kappa2, d2]" and "0 < d1" and "0 < d2"
    and "i < alen (h ! t)" and "vals (h ! t) ! i = 0"
    and "rl (one_minus (item (h ! p) 2)) = 1 - w1"
  shows "value_at (body_sumstrexp h t p lam) i = Some 1"
proof -
  have n: "alen (h ! p) = 5" using assms(1) length_vals[of "h ! p"] by simp
  then have d: "0 < rl (item (h ! p) 1)" "0 < rl (item (h ! p) 4)"
    using rl_item[of 1 "h ! p"] rl_item[of 4 "h ! p"] assms(1,2,3) by simp_all
  have w: "rl (item (h ! p) 2) = w1" using rl_item[of 2 "h ! p"] n assms(1) by simp
  from strexp_zero[OF d(1) assms(4,5), of lam "item (h ! p) 0"]
    strexp_zero[OF d(2) assms(4,5), of lam "item (h ! p) 3"] assms(4)
  show ?thesis by (auto simp: body_sumstrexp_def value_at_def Let_def w assms(6))
qed

text \<open>
  The last hypothesis is needed: for the integer weight \<^verbatim>\<open>-2**63\<close> numpy's \<^verbatim>\<open>1-w1\<close> wraps
  around, and the sum of the two weights is \<^verbatim>\<open>1 - 2**64\<close>.
\<close>

lemma sumstrexp_weight_wraps:
  "value_at (bg_sumstrexp [PyList [I 0], PyList [I 1, I 1, I (- (2 ^ 63)), I 1, I 1], PyNum (I 1)] []) 0
     = Some (1 - 2 ^ 64)"
  by (simp add: bg_sumstrexp_def compute_def parsargs_def alloc_def array_of_def value_at_def
      body_sumstrexp_def strexp_def np_exp_def)

lemma body_homfractal_zero:
  assumes "h ! p = FloatArr [c, 3]" and "i < alen (h ! t)" and "vals (h ! t) ! i = 0"
  shows "value_at (body_homfractal gamma quad h t p lam) i = Some 1"
  using assms
  by (simp add: body_homfractal_def value_at_curve length_vals pow_bad_def pw_def Let_def)

lemma alen_amul: "alen a = alen b \<Longrightarrow> alen (amul a b) = alen a"
  by (cases a; cases b) auto

lemma alen_sadd: "alen (sadd a c) = alen a"
  by (cases a; cases c) auto

lemma alen_zeros_like: "alen (zeros_like x) = alen x"
  by (cases x) auto

lemma horner_len: "alen y = alen x \<Longrightarrow> alen (foldl (\<lambda>y pv. sadd (amul y x) pv) y cs) = alen x"
  by (induction cs arbitrary: y) (simp_all add: alen_amul alen_sadd)

lemma step_zero:
  assumes "alen y = alen x" and "i < alen x" and "vals x ! i = 0"
  shows "vals (sadd (amul y x) c) ! i = rl c"
proof (cases x)
  case (IntArr xs)
  then have x0: "xs ! i = 0" using assms(2,3) sint_real_zero[of "xs ! i"] by (simp del: of_int_sint)
  show ?thesis
  proof (cases y)
    case (IntArr ys)
    then show ?thesis using \<open>x = IntArr xs\<close> assms(1,2) x0 by (cases c) simp_all
  next
    case (FloatArr ys)
    then show ?thesis using IntArr assms(1,2) x0 by (cases c) simp_all
  qed
next
  case (FloatArr xs)
  then show ?thesis using assms by (cases y; cases c) simp_all
qed

lemma horner_zero:
  assumes "alen y = alen x" and "i < alen x" and "vals x ! i = 0"
  shows "vals (foldl (\<lambda>y pv. sadd (amul y x) pv) y (cs @ [c])) ! i = rl c"
  using step_zero[OF horner_len[OF assms(1), of cs] assms(2,3)] by simp

lemma polyval_zero:
  assumes "items p = cs @ [c]" and "i < alen x" and "vals x ! i = 0"
  shows "alen (polyval p x) = alen x \<and> vals (polyval p x) ! i = rl c"
  using horner_zero[OF alen_zeros_like assms(2,3), of cs c] horner_len[OF alen_zeros_like, of x "items p"]
  by (simp add: polyval_def assms(1))

lemma items_flip: "items (flip a) = rev (items a)"
  by (cases a) (auto simp: rev_map)

lemma items_scale_head: "items a = cs @ [c] \<Longrightarrow> \<exists>cs'. items (scale_head lam a) = cs' @ [c]"
  by (cases a; cases lam) (auto simp: map_eq_append_conv)

lemma body_poly_zero:
  assumes "items (h ! p) = a0 # rest" and "t < length h" and "i < alen (h ! t)" and "vals (h ! t) ! i = 0"
  shows "value_at (body_poly h t p lam) i = Some (rl a0)"
proof -
  have "items (flip (h ! p)) = rev rest @ [a0]" using assms(1) by (simp add: items_flip)
  then obtain cs where cs: "items (scale_head lam (flip (h ! p))) = cs @ [a0]"
    using items_scale_head by blast
  have x: "i < alen (np_abs (h ! t))" "vals (np_abs (h ! t)) ! i = 0"
    using assms(3,4) np_abs_zero[of i "h ! t"] by (simp_all add: alen_np_abs)
  from polyval_zero[OF cs x] show ?thesis
    using assms(2) x(1) by (simp add: body_poly_eq value_at_def alen_np_abs)
qed

lemma length_put_mask: "length (put_mask ms as vs) = length as"
  by (induction ms as vs rule: put_mask.induct) auto

lemma select_map: "select (map Q xs) xs = filter Q xs"
  by (induction xs) (auto simp: select_def)

lemma large_nonzero: "0 < M \<Longrightarrow> (0 \<in> set (select (map Not (map (\<lambda>x. x < M) xs)) xs)) = False"
  using select_map[of "\<lambda>x. \<not> x < M" xs] by (auto simp: o_def)

lemma value_at_K:
  "i < length tabs \<Longrightarrow> tabs ! i = 0 \<Longrightarrow> length al = length tabs \<Longrightarrow>
   value_at (Inr (Curve (FloatArr (map (\<lambda>k. exp (a * k)) (map2 (\<lambda>x y. b * x * y) tabs al)))), h') i = Some 1"
  by (simp add: value_at_curve)

lemma body_hom3dex_zero:
  assumes p: "vals (h ! p) = [c, R]" and tab: "table_ok tab"
    and i: "i < alen (h ! t)" and z: "vals (h ! t) ! i = 0"
  shows "value_at (body_hom3dex tab h t p lam) i = Some 1"
proof (cases "R = 0")
  case True
  then show ?thesis using p i z
    by (simp add: body_hom3dex_R0 value_at_curve length_vals)
next
  case False
  have "alen (h ! p) = 2" using p length_vals[of "h ! p"] by simp
  then have it: "rl (item (h ! p) 1) = R"
    using rl_item[of 1 "h ! p"] p by simp
  have R: "(R = 0) = False" using False by simp
  have M: "0 < Max (set (fst tab))" and ne: "(fst tab = []) = False"
    and len: "length (snd tab) = length (fst tab)"
    using tab by (simp_all add: table_ok_def)
  have li: "i < length (map (\<lambda>x. \<bar>x * (1 / 10 ^ 6)\<bar>) (vals (h ! t)))"
    "map (\<lambda>x. \<bar>x * (1 / 10 ^ 6)\<bar>) (vals (h ! t)) ! i = 0" using i z by (simp_all add: length_vals)
  show ?thesis
    unfolding body_hom3dex_def Let_def alloc_def
    apply (simp only: it R ne len if_False prod.case large_nonzero[OF M] not_False_eq_True
        refl not_True_eq_False)
    apply (rule value_at_K[OF li])
    apply (simp add: length_put_mask nth_append)
    done
qed

lemma at_zero:
  assumes "ok h t" and "ok h p" and "alen (asarray h p) = n"
    and "\<And>h' tr pr. tr < length h' \<Longrightarrow> h' ! tr = asarray h t \<Longrightarrow> h' ! pr = asarray h p \<Longrightarrow>
           value_at (body h' tr pr lam) i = Some v"
  shows "value_at (compute desc n body [t, p, PyNum lam] h) i = Some v"
proof -
  obtain tr pr where "value_at (compute desc n body [t, p, PyNum lam] h) i
        = value_at (body (coerced t p h) tr pr lam) i"
    "tr < length (coerced t p h)"
    "coerced t p h ! tr = asarray h t" "coerced t p h ! pr = asarray h p"
    using value_at_compute[OF assms(1,2,3), of desc body lam i] by metis
  then show ?thesis using assms(4) by simp
qed

text \<open>
  Claim C2 says that every model is 1 at time zero, for all parameters within the bounds of
  its descriptor. That fails, as the counterexample after the theorem shows: a polynomial model
  returns its intercept there, and a stretched exponential with stretch factor 0 returns
  \<^verbatim>\<open>exp(-lam*kappa)\<close>, since \<^verbatim>\<open>0**0\<close> is 1. What holds, at every entry of the time axis that
  is 0: \<^verbatim>\<open>bg_exp\<close> and \<^verbatim>\<open>bg_hom3d\<close> return 1; \<^verbatim>\<open>bg_strexp\<close>, \<^verbatim>\<open>bg_prodstrexp\<close> and
  \<^verbatim>\<open>bg_sumstrexp\<close> return 1 when the stretch factors are positive and, in the last, the
  complement \<^verbatim>\<open>1-w1\<close> of the weight is computed without leaving \<^verbatim>\<open>int64\<close>; \<^verbatim>\<open>bg_hom3dex\<close>
  returns 1 for a table with as many values as sample points and a positive largest sample point;
  \<^verbatim>\<open>bg_homfractal\<close> returns 1 at the float dimension 3; the polynomial models return the
  intercept \<^verbatim>\<open>a0\<close>.
\<close>

theorem value_at_time_zero:
  assumes "ok h t" and "i < alen (asarray h t)" and "vals (asarray h t) ! i = 0"
    and "ok h p1" and "vals (asarray h p1) = [x]"
    and "ok h p2" and "vals (asarray h p2) = [kappa, d]" and "0 < d"
    and "ok h p4" and "vals (asarray h p4) = [kappa1, d1, kappa2, d2]" and "0 < d1" and "0 < d2"
    and "ok h p5" and "vals (asarray h p5) = [kappa1, d1, w1, kappa2, d2]"
    and "ok h pe" and "vals (asarray h pe) = [c, R]" and "table_ok tab"
    and "ok h pf" and "asarray h pf = FloatArr [c, 3]"
    and "ok h q2" and "items (asarray h q2) = [a0, a1]"
    and "ok h q3" and "items (asarray h q3) = [a0, a1, a2]"
    and "ok h q4" and "items (asarray h q4) = [a0, a1, a2, a3]"
    and "rl (one_minus (item (asarray h p5) 2)) = 1 - w1"
  shows "value_at (bg_exp [t, p1, PyNum lam] h) i = Some 1
       \<and> value_at (bg_hom3d [t, p1, PyNum lam] h) i = Some 1
       \<and> value_at (bg_strexp [t, p2, PyNum lam] h) i = Some 1
       \<and> value_at (bg_prodstrexp [t, p4, PyNum lam] h) i = Some 1
       \<and> value_at (bg_sumstrexp [t, p5, PyNum lam] h) i = Some 1
       \<and> value_at (bg_hom3dex tab [t, pe, PyNum lam] h) i = Some 1
       \<and> value_at (bg_homfractal gamma quad [t, pf, PyNum lam] h) i = Some 1
       \<and> value_at (bg_poly1 [t, q2, PyNum lam] h) i = Some (rl a0)
       \<and> value_at (bg_poly2 [t, q3, PyNum lam] h) i = Some (rl a0)
       \<and> value_at (bg_poly3 [t, q4, PyNum lam] h) i = Some (rl a0)"
proof -
  note t = assms(1,2,3)
  have n1: "alen (asarray h p1) = 1" using assms(5) length_vals[of "asarray h p1"] by simp
  have n2: "alen (asarray h p2) = 2" using assms(7) length_vals[of "asarray h p2"] by simp
  have n4: "alen (asarray h p4) = 4" using assms(10) length_vals[of "asarray h p4"] by simp
  have n5: "alen (asarray h p5) = 5" using assms(14) length_vals[of "asarray h p5"] by simp
  have ne: "alen (asarray h pe) = 2" using assms(16) length_vals[of "asarray h pe"] by simp
  have nf: "alen (asarray h pf) = 2" using assms(19) by simp
  have m2: "alen (asarray h q2) = 2" using assms(21) alen_items[of "asarray h q2"] by simp
  have m3: "alen (asarray h q3) = 3" using assms(23) alen_items[of "asarray h q3"] by simp
  have m4: "alen (asarray h q4) = 4" using assms(25) alen_items[of "asarray h q4"] by simp
  have 1: "value_at (bg_exp [t, p1, PyNum lam] h) i = Some 1"
    unfolding bg_exp_def
    by (rule at_zero[OF t(1) assms(4) n1]) (simp add: body_exp_zero assms(5) t)
  have 2: "value_at (bg_hom3d [t, p1, PyNum lam] h) i = Some 1"
    unfolding bg_hom3d_def
    by (rule at_zero[OF t(1) assms(4) n1]) (simp add: body_hom3d_zero assms(5) t)
  have 3: "value_at (bg_strexp [t, p2, PyNum lam] h) i = Some 1"
    unfolding bg_strexp_def
    by (rule at_zero[OF t(1) assms(6) n2]) (simp add: body_strexp_zero[OF _ assms(8)] assms(7) t)
  have 4: "value_at (bg_prodstrexp [t, p4, PyNum lam] h) i = Some 1"
    unfolding bg_prodstrexp_def
    by (rule at_zero[OF t(1) assms(9) n4])
      (simp add: body_prodstrexp_zero[OF _ assms(11,12)] assms(10) t)
  have 5: "value_at (bg_sumstrexp [t, p5, PyNum lam] h) i = Some 1"
    unfolding bg_sumstrexp_def
    by (rule at_zero[OF t(1) assms(13) n5])
      (simp add: body_sumstrexp_zero[OF _ assms(11,12)] assms(14,26) t)
  have 6: "value_at (bg_hom3dex tab [t, pe, PyNum lam] h) i = Some 1"
    unfolding bg_hom3dex_def
    by (rule at_zero[OF t(1) assms(15) ne])
      (simp add: body_hom3dex_zero[OF _ assms(17)] assms(16) t)
  have 7: "value_at (bg_homfractal gamma quad [t, pf, PyNum lam] h) i = Some 1"
    unfolding bg_homfractal_def
    by (rule at_zero[OF t(1) assms(18) nf]) (simp add: body_homfractal_zero assms(19) t)
  have 8: "value_at (bg_poly1 [t, q2, PyNum lam] h) i = Some (rl a0)"
    unfolding bg_poly1_def
    by (rule at_zero[OF t(1) assms(20) m2]) (simp add: body_poly_zero assms(21) t)
  have 9: "value_at (bg_poly2 [t, q3, PyNum lam] h) i = Some (rl a0)"
    unfolding bg_poly2_def
    by (rule at_zero[OF t(1) assms(22) m3]) (simp add: body_poly_zero assms(23) t)
  have 10: "value_at (bg_poly3 [t, q4, PyNum lam] h) i = Some (rl a0)"
    unfolding bg_poly3_def
    by (rule at_zero[OF t(1) assms(24) m4]) (simp add: body_poly_zero assms(25) t)
  show ?thesis using 1 2 3 4 5 6 7 8 9 10 by simp
qed

theorem value_at_time_zero_witness:
  "ok [] (PyList [F 0, F 1]) \<and> 0 < alen (asarray [] (PyList [F 0, F 1]))
   \<and> vals (asarray [] (PyList [F 0, F 1])) ! 0 = 0
   \<and> ok [] (PyList [F 0.35]) \<and> vals (asarray [] (PyList [F 0.35])) = [0.35]
   \<and> ok [] (PyList [F 0.25, F 1]) \<and> vals (asarray [] (PyList [F 0.25, F 1])) = [0.25, 1]
   \<and> (0::real) < 1
   \<and> ok [] (PyList [F 0.25, F 1, F 0.25, F 1])
   \<and> vals (asarray [] (PyList [F 0.25, F 1, F 0.25, F 1])) = [0.25, 1, 0.25, 1]
   \<and> ok [] (PyList [F 0.25, F 1, F 0.5, F 0.25, F 1])
   \<and> vals (asarray [] (PyList [F 0.25, F 1, F 0.5, F 0.25, F 1])) = [0.25, 1, 0.5, 0.25, 1]
   \<and> rl (one_minus (item (asarray [] (PyList [F 0.25, F 1, F 0.5, F 0.25, F 1])) 2)) = 1 - 0.5
   \<and> ok [] (PyList [F 50, F 1]) \<and> vals (asarray [] (PyList [F 50, F 1])) = [50, 1]
   \<and> table_ok ([1, 2], [0.9, 0.95])
   \<and> ok [] (PyList [F 50, F 3]) \<and> asarray [] (PyList [F 50, F 3]) = FloatArr [50, 3]
   \<and> ok [] (PyList [F 2, F (- 1)]) \<and> items (asarray [] (PyList [F 2, F (- 1)])) = [F 2, F (- 1)]
   \<and> ok [] (PyList [F 2, F (- 1), F (- 1)])
   \<and> items (asarray [] (PyList [F 2, F (- 1), F (- 1)])) = [F 2, F (- 1), F (- 1)]
   \<and> ok [] (PyList [F 2, F (- 1), F (- 1), F (- 1)])
   \<and> items (asarray [] (PyList [F 2, F (- 1), F (- 1), F (- 1)])) = [F 2, F (- 1), F (- 1), F (- 1)]
   \<and> value_at (bg_exp [PyList [F 0, F 1], PyList [F 0.35], PyNum (F 0.5)] []) 0 = Some 1
   \<and> value_at (bg_hom3d [PyList [F 0, F 1], PyList [F 0.35], PyNum (F 0.5)] []) 0 = Some 1
   \<and> value_at (bg_strexp [PyList [F 0, F 1], PyList [F 0.25, F 1], PyNum (F 0.5)] []) 0 = Some 1
   \<and> value_at (bg_prodstrexp [PyList [F 0, F 1], PyList [F 0.25, F 1, F 0.25, F 1], PyNum (F 0.5)] []) 0
        = Some 1
   \<and> value_at (bg_sumstrexp [PyList [F 0, F 1], PyList [F 0.25, F 1, F 0.5, F 0.25, F 1],
          PyNum (F 0.5)] []) 0 = Some 1
   \<and> value_at (bg_hom3dex ([1, 2], [0.9, 0.95]) [PyList [F 0, F 1], PyList [F 50, F 1],
          PyNum (F 0.5)] []) 0 = Some 1
   \<and> value_at (bg_homfractal (\<lambda>x. x) (\<lambda>f a b n. (0, 0)) [PyList [F 0, F 1], PyList [F 50, F 3],
          PyNum (F 0.5)] []) 0 = Some 1
   \<and> value_at (bg_poly1 [PyList [F 0, F 1], PyList [F 2, F (- 1)], PyNum (F 0.5)] []) 0 = Some 2
   \<and> value_at (bg_poly2 [PyList [F 0, F 1], PyList [F 2, F (- 1), F (- 1)], PyNum (F 0.5)] []) 0
        = Some 2
   \<and> value_at (bg_poly3 [PyList [F 0, F 1], PyList [F 2, F (- 1), F (- 1), F (- 1)],
          PyNum (F 0.5)] []) 0 = Some 2"
  using value_at_time_zero[where h = "[]" and t = "PyList [F 0, F 1]" and i = 0
      and ?p1.0 = "PyList [F 0.35]" and x = "0.35"
      and ?p2.0 = "PyList [F 0.25, F 1]" and kappa = "0.25" and d = 1
      and ?p4.0 = "PyList [F 0.25, F 1, F 0.25, F 1]"
      and ?kappa1.0 = "0.25" and ?d1.0 = 1 and ?kappa2.0 = "0.25" and ?d2.0 = 1
      and ?p5.0 = "PyList [F 0.25, F 1, F 0.5, F 0.25, F 1]" and ?w1.0 = "0.5"
      and pe = "PyList [F 50, F 1]" and c = 50 and R = 1 and tab = "([1, 2], [0.9, 0.95])"
      and pf = "PyList [F 50, F 3]"
      and ?q2.0 = "PyList [F 2, F (- 1)]" and ?a0.0 = "F 2" and ?a1.0 = "F (- 1)"
      and ?q3.0 = "PyList [F 2, F (- 1), F (- 1)]" and ?a2.0 = "F (- 1)"
      and ?q4.0 = "PyList [F 2, F (- 1), F (- 1), F (- 1)]" and ?a3.0 = "F (- 1)"
      and lam = "F 0.5" and gamma = "\<lambda>x. x" and quad = "\<lambda>f a b n. (0, 0)"]
  by (simp add: array_of_def table_ok_def)

text \<open>
  The counterexample to claim C2 as it is stated: parameters within the bounds of the
  descriptors, time 0, and values 2 and \<^verbatim>\<open>exp(-1)\<close>.
\<close>

lemma exp_neq_one: "exp (- 1 :: real) \<noteq> 1"
  by simp

theorem time_zero_counterexample:
  "in_bounds info_poly1 (asarray [] (PyList [F 2, F (- 1)]))
   \<and> value_at (bg_poly1 [PyList [F 0], PyList [F 2, F (- 1)], PyNum (F 1)] []) 0 = Some 2
   \<and> value_at (bg_poly1 [PyList [F 0], PyList [F 2, F (- 1)], PyNum (F 1)] []) 0 \<noteq> Some 1
   \<and> in_bounds info_strexp (asarray [] (PyList [F 1, F 0]))
   \<and> value_at (bg_strexp [PyList [F 0], PyList [F 1, F 0], PyNum (F 1)] []) 0 = Some (exp (- 1))
   \<and> value_at (bg_strexp [PyList [F 0], PyList [F 1, F 0], PyNum (F 1)] []) 0 \<noteq> Some 1"
  by (simp add: in_bounds_def info_poly1_def info_strexp_def array_of_def value_at_def
      bg_poly1_def bg_strexp_def compute_def parsargs_def alloc_def body_poly_def polyval_def
      body_strexp_def strexp_def pow_bad_def pw_def np_exp_def)

section \<open>The general branch of the fractal model\<close>

lemma body_homfractal_general:
  assumes "h ! p = FloatArr [c, d]" and "d \<noteq> 3"
  shows "fst (body_homfractal gamma quad h t p lam) = Inl (TypeError seq_repeat_msg)"
  using assms by (simp add: body_homfractal_def Let_def float64_times_tuple_def)

text \<open>
  With an integer parameter array the unit conversion \<^verbatim>\<open>10**-d\<close> comes first: it is refused
  for a positive \<^verbatim>\<open>d\<close>, and for the others the call ends at the same product.
\<close>

lemma body_homfractal_int:
  assumes "h ! p = IntArr [c, d]" and "sint d \<noteq> 3"
  shows "fst (body_homfractal gamma quad h t p lam) =
      (if sint (- d) < 0 then Inl (ValueError neg_pow_msg) else Inl (TypeError seq_repeat_msg))"
  using assms by (simp add: body_homfractal_def Let_def float64_times_tuple_def del: of_int_sint)

text \<open>
  Claim C1 says that, for a dimension \<^verbatim>\<open>d\<close> other than 3, \<^verbatim>\<open>bg_homfractal\<close> returns the curve
  \<^verbatim>\<open>exp((4pi/3)*c*Lam*lam*c'*D^(d/3)*|t*1e-6|^(d/3))\<close> with \<^verbatim>\<open>Lam\<close> the value of the
  quadrature. The code multiplies \<^verbatim>\<open>4*pi/3*c\<close> by what \<^verbatim>\<open>quad\<close> returns, the pair of the value
  and its error estimate, and that product is a \<^verbatim>\<open>TypeError\<close>. So for every time axis, every
  float parameter array \<^verbatim>\<open>[c, d]\<close> with \<^verbatim>\<open>d\<close> other than 3 and every modulation depth, whatever
  the two library functions return, the call raises and returns no curve.
\<close>

theorem homfractal_quad_pair:
  assumes "ok h t" and "ok h p" and "asarray h p = FloatArr [c, d]" and "d \<noteq> 3"
  shows "fst (bg_homfractal gamma quad [t, p, PyNum lam] h) = Inl (TypeError seq_repeat_msg)"
proof -
  have n: "alen (asarray h p) = 2" using assms(3) by simp
  obtain tr pr where c: "compute info_homfractal 2 (body_homfractal gamma quad) [t, p, PyNum lam] h
        = body_homfractal gamma quad (coerced t p h) tr pr lam"
    "coerced t p h ! tr = asarray h t" "coerced t p h ! pr = asarray h p"
    using compute_body[OF assms(1,2) n, of info_homfractal "body_homfractal gamma quad" lam] by auto
  show ?thesis
    using body_homfractal_general[of "coerced t p h" pr c d gamma quad tr lam] c assms(3,4)
    by (simp add: bg_homfractal_def)
qed

theorem homfractal_quad_pair_witness:
  "ok [] (PyList [F 0.1, F 0.2, F 0.3]) \<and> ok [] (PyList [F 50, F 2])
   \<and> asarray [] (PyList [F 50, F 2]) = FloatArr [50, 2] \<and> (2 :: real) \<noteq> 3
   \<and> fst (bg_homfractal (\<lambda>x. 1 / x) (\<lambda>f a b n. (f ((a + b) / 2) * (b - a), 0))
          [PyList [F 0.1, F 0.2, F 0.3], PyList [F 50, F 2], PyNum (I 1)] [])
       = Inl (TypeError seq_repeat_msg)"
  using homfractal_quad_pair[of "[]" "PyList [F 0.1, F 0.2, F 0.3]" "PyList [F 50, F 2]" 50 2
      "\<lambda>x. 1 / x" "\<lambda>f a b n. (f ((a + b) / 2) * (b - a), 0)" "I 1"]
  by (simp add: array_of_def)

end
